theory Spec2Isabelle
  imports Complex_Main
begin

section \<open>The Beaune NDVI notebook\<close>

text \<open>
  The repository is one notebook, \<^verbatim>\<open>src/notebooks/notebook.ipynb\<close>. Its code cells are
  run top to bottom in one Python kernel; they build descriptions of images for a remote
  imagery engine, ask the engine for a few values, put layers on map widgets and fill a
  small table.

  The embedding has three parts.
  \<^item> The objects of the imagery API (\<open>ee_obj\<close>). Every method the notebook calls on such an
    object only builds a bigger description of a computation, so every such method is a
    constructor, named after the method.
  \<^item> The kernel state (\<open>nb\<close>): one field for each global variable the cells assign, and
    the output area. A cell that only assigns variables is a function on the state.
  \<^item> The calls that leave the kernel (\<open>request\<close>): a cell that makes such calls is a tree
    (\<open>prog\<close>) whose nodes are the requests, in program order, and whose branches are the
    answers. \<open>exec\<close> runs a tree against an engine and returns the requests issued, each
    with its answer, and the outcome: the final state, or the exception and the state it
    left behind.
\<close>

subsection \<open>Objects of the imagery API\<close>

datatype geometry = Polygon "(real \<times> real) list list" | Point "real \<times> real"

text \<open>
  A Python number given where the API wants an image (\<^verbatim>\<open>image.divide(10000)\<close>) is turned
  into a constant image by the client library: \<open>Constant\<close>. \<open>Reducer_mean\<close> is the object
  the call \<^verbatim>\<open>ee.Reducer.mean()\<close> returns, \<open>ImageProps\<close> the dictionary that
  \<^verbatim>\<open>geemap.image_props\<close> returns for an image.
\<close>

datatype ee_obj =
    ImageCollection string
  | FilterDate ee_obj string string
  | FilterBounds ee_obj geometry
  | Sort ee_obj string
  | First ee_obj
  | Clip ee_obj geometry
  | Constant real
  | Select ee_obj string
  | Add ee_obj ee_obj
  | Subtract ee_obj ee_obj
  | Multiply ee_obj ee_obj
  | Divide ee_obj ee_obj
  | AddBands ee_obj ee_obj "string list option" bool
  | Rename ee_obj string
  | Reducer_mean
  | ReduceRegion ee_obj ee_obj geometry real real
  | Get ee_obj string
  | ImageProps ee_obj

subsection \<open>Python values\<close>

text \<open>
  The values \<^verbatim>\<open>getInfo()\<close> hands back for the properties the notebook asks for: nothing,
  a number or a string. The numbers are kept abstract (\<open>'n\<close>): the notebook only stores,
  rounds and prints them, and Python's rounding and printing of numbers are parameters.
\<close>

datatype 'n pyval = PyNone | PyNum 'n | PyStr string

record 'n builtins =
  round2 :: "'n \<Rightarrow> 'n"
  repr :: "'n \<Rightarrow> string"

datatype error = Exception string | TypeError | KeyError string

text \<open>\<^verbatim>\<open>str(year)\<close> for an integer.\<close>

fun str_nat :: "nat \<Rightarrow> string" where
  "str_nat n =
     (if n < 10 then [''0123456789'' ! n]
      else str_nat (n div 10) @ [''0123456789'' ! (n mod 10)])"

declare str_nat.simps [simp del]

definition str_int :: "int \<Rightarrow> string" where
  "str_int i = (if i < 0 then CHR ''-'' # str_nat (nat (- i)) else str_nat (nat i))"

text \<open>How an f-string renders a value: \<^verbatim>\<open>f'{v}'\<close>.\<close>

fun py_str :: "'n builtins \<Rightarrow> 'n pyval \<Rightarrow> string" where
  "py_str b PyNone = ''None''"
| "py_str b (PyNum n) = repr b n"
| "py_str b (PyStr s) = s"

subsection \<open>Display parameters, layers, map widgets, the table\<close>

datatype vis_val = VNum real | VList "string list"

type_synonym vis_params = "(string \<times> vis_val) list"

record vis_entry =
  name :: string
  properties :: vis_params

record layer =
  ee_object :: ee_obj
  vis :: vis_params
  layer_name :: string

record colorbar =
  colors :: vis_val
  vmin :: vis_val
  vmax :: vis_val
  cb_layer_name :: "string option"
  position :: "string option"

text \<open>
  A map widget, as far as the notebook sets it: the arguments of \<^verbatim>\<open>geemap.Map\<close>, the
  image layers the notebook has put on it, the lowest first (the base map that is drawn
  under them is not among them), its colour bars, and the two sides and labels of a
  split view.
\<close>

record map_widget =
  center :: "real \<times> real"
  zoom :: int
  layer_ctrl :: bool
  data_ctrl :: "bool option"
  add_google_map :: bool
  layers :: "layer list"
  colorbars :: "colorbar list"
  split_layers :: "(layer \<times> layer \<times> string \<times> string) option"

definition Map :: "real \<times> real \<Rightarrow> int \<Rightarrow> bool \<Rightarrow> bool option \<Rightarrow> bool \<Rightarrow> map_widget" where
  "Map c z lc dc g =
     \<lparr>center = c, zoom = z, layer_ctrl = lc, data_ctrl = dc, add_google_map = g,
      layers = [], colorbars = [], split_layers = None\<rparr>"

record 'n row =
  Year :: int
  Wine_Score :: "int option"
  Mean_NDVI :: "'n pyval"
  Photo_Date :: "'n pyval"

record 'n image_entry =
  mean_ndvi_entry :: "'n pyval"
  image_entry :: ee_obj

datatype 'n shown =
    Printed string
  | Display_map map_widget
  | Display_table "'n row list"

subsection \<open>The kernel state\<close>

text \<open>
  One field for each global variable, under the variable's name (\<open>image_var\<close> is the loop's
  \<^verbatim>\<open>image\<close>). \<^verbatim>\<open>ndvi_legend\<close> is assigned in the fifth code cell and never read; it has no
  field. \<open>out\<close> is what the cells print and display.
\<close>

record 'n nb =
  burgundy_map :: map_widget
  clip_area :: geometry
  study_area :: geometry
  study_date :: "string \<times> string"
  image_2022 :: ee_obj
  props :: ee_obj
  landsat_date :: "'n pyval"
  landsat_cloud :: "'n pyval"
  landsat_8_data_2022 :: ee_obj
  landsat_nat :: vis_entry
  landsat_IR :: vis_entry
  landsat_veg :: vis_entry
  vis_ndvi :: vis_entry
  landsat_NIR :: ee_obj
  landsat_red :: ee_obj
  landsat_ndvi :: ee_obj
  sentinel_2022 :: ee_obj
  sentinel_2022_data :: ee_obj
  props2 :: ee_obj
  sentinel_date :: "'n pyval"
  sentinel_cloud :: "'n pyval"
  sentinel_nat :: vis_entry
  sentinel_IR :: vis_entry
  sentinel_map :: map_widget
  sentinel_NIR :: ee_obj
  sentinel_red :: ee_obj
  sentinel_ndvi :: ee_obj
  landsat_layer :: layer
  sentinel_layer :: layer
  split :: map_widget
  scores :: "'n row list"
  wine_scores :: "'n row list"
  years :: "int list"
  images :: "string \<rightharpoonup> 'n image_entry"
  ndvi_map :: map_widget
  year :: int
  image_var :: ee_obj
  image_data :: ee_obj
  NIR :: ee_obj
  red :: ee_obj
  ndvi :: ee_obj
  mean_ndvi :: ee_obj
  mean_final :: "'n pyval"
  image_info :: ee_obj
  date :: "'n pyval"
  out :: "'n shown list"

subsection \<open>Requests and programs\<close>

text \<open>
  The calls that do more than build a description: \<^verbatim>\<open>getInfo()\<close> and the \<^verbatim>\<open>geemap\<close>
  functions. Each may raise. A call on a map widget names the widget.
\<close>

datatype map_id = Burgundy_map | Sentinel_map | Split | Ndvi_map

datatype request =
    New_Map "real \<times> real" int bool "bool option" bool
  | GetInfo ee_obj
  | Image_props ee_obj
  | Add_ee_layer map_id ee_obj vis_params string
  | Ee_tile_layer ee_obj vis_params string
  | Split_map layer layer string string
  | Add_colorbar_branca map_id vis_val vis_val vis_val "string option" "string option"

datatype 'n prog =
    Done "'n nb"
  | Raise error "'n nb"
  | Call request "'n nb" "'n pyval \<Rightarrow> 'n prog"

text \<open>\<open>then_prog p f\<close>: run \<open>p\<close>, and if it finishes, run \<open>f\<close> from the state it reached.\<close>

primrec then_prog :: "'n prog \<Rightarrow> ('n nb \<Rightarrow> 'n prog) \<Rightarrow> 'n prog" where
  "then_prog (Done s) f = f s"
| "then_prog (Raise e s) f = Raise e s"
| "then_prog (Call r s k) f = Call r s (\<lambda>v. then_prog (k v) f)"

text \<open>\<^verbatim>\<open>for y in ys: body\<close>.\<close>

primrec for_each :: "'a list \<Rightarrow> ('a \<Rightarrow> 'n nb \<Rightarrow> 'n prog) \<Rightarrow> 'n nb \<Rightarrow> 'n prog" where
  "for_each [] body s = Done s"
| "for_each (y # ys) body s = then_prog (body y s) (for_each ys body)"

text \<open>
  A transcript is the list of the requests issued so far, in order, each with the
  answer it got: an exception or a value. What the world outside the kernel answers to
  a request may depend on everything asked and answered before (the same request can
  get another answer the second time), so an engine answers a request after a
  transcript.
\<close>

type_synonym 'n transcript = "(request \<times> (error + 'n pyval)) list"

type_synonym 'n engine = "'n transcript \<Rightarrow> request \<Rightarrow> error + 'n pyval"

datatype 'n outcome = Finished "'n nb" | Failed error "'n nb"

primrec state_of :: "'n outcome \<Rightarrow> 'n nb" where
  "state_of (Finished s) = s"
| "state_of (Failed e s) = s"

text \<open>
  Running a program against an engine gives the transcript of the run and the outcome.
  A request the engine answers with an exception ends the run with that exception, in
  the state the kernel had when the call was made. \<open>exec_from x p h\<close> runs \<open>p\<close> after the
  transcript \<open>h\<close> and returns the part of the transcript the run adds; \<open>exec\<close> is a run
  that starts with nothing asked.
\<close>

primrec exec_from ::
  "'n engine \<Rightarrow> 'n prog \<Rightarrow> 'n transcript \<Rightarrow> 'n transcript \<times> 'n outcome" where
  "exec_from x (Done s) h = ([], Finished s)"
| "exec_from x (Raise e s) h = ([], Failed e s)"
| "exec_from x (Call r s k) h =
     (case x h r of
        Inl e \<Rightarrow> ([(r, Inl e)], Failed e s)
      | Inr v \<Rightarrow> ((r, Inr v) # fst (exec_from x (k v) (h @ [(r, Inr v)])),
                  snd (exec_from x (k v) (h @ [(r, Inr v)]))))"

definition exec :: "'n engine \<Rightarrow> 'n prog \<Rightarrow> 'n transcript \<times> 'n outcome" where
  "exec x p = exec_from x p []"

text \<open>\<^verbatim>\<open>round(v, 2)\<close> raises \<^verbatim>\<open>TypeError\<close> unless \<open>v\<close> is a number.\<close>

definition py_round ::
  "'n builtins \<Rightarrow> 'n pyval \<Rightarrow> 'n nb \<Rightarrow> ('n pyval \<Rightarrow> 'n prog) \<Rightarrow> 'n prog" where
  "py_round b v s k = (case v of PyNum n \<Rightarrow> k (PyNum (round2 b n)) | _ \<Rightarrow> Raise TypeError s)"

text \<open>\<^verbatim>\<open>d[key]\<close> on a dictionary of display parameters.\<close>

definition getitem :: "vis_params \<Rightarrow> string \<Rightarrow> 'n nb \<Rightarrow> (vis_val \<Rightarrow> 'n prog) \<Rightarrow> 'n prog" where
  "getitem d key s k = (case map_of d key of None \<Rightarrow> Raise (KeyError key) s | Some v \<Rightarrow> k v)"

text \<open>A method call on one of the four map widgets reads and writes the widget's variable.\<close>

primrec get_map :: "map_id \<Rightarrow> 'n nb \<Rightarrow> map_widget" where
  "get_map Burgundy_map s = burgundy_map s"
| "get_map Sentinel_map s = sentinel_map s"
| "get_map Split s = split s"
| "get_map Ndvi_map s = ndvi_map s"

primrec set_map :: "map_id \<Rightarrow> map_widget \<Rightarrow> 'n nb \<Rightarrow> 'n nb" where
  "set_map Burgundy_map w s = s\<lparr>burgundy_map := w\<rparr>"
| "set_map Sentinel_map w s = s\<lparr>sentinel_map := w\<rparr>"
| "set_map Split w s = s\<lparr>split := w\<rparr>"
| "set_map Ndvi_map w s = s\<lparr>ndvi_map := w\<rparr>"

text \<open>
  \<^verbatim>\<open>Map.add_ee_layer\<close> puts the layer on top of the map's layers; a layer of the same
  name that is already on the map is taken off first, so a map never shows two layers
  under one name.
\<close>

definition put_layer :: "layer \<Rightarrow> layer list \<Rightarrow> layer list" where
  "put_layer l ls = filter (\<lambda>l'. layer_name l' \<noteq> layer_name l) ls @ [l]"

definition add_ee_layer ::
  "map_id \<Rightarrow> ee_obj \<Rightarrow> vis_params \<Rightarrow> string \<Rightarrow> 'n nb \<Rightarrow> ('n nb \<Rightarrow> 'n prog) \<Rightarrow> 'n prog" where
  "add_ee_layer m obj v nm s k =
     Call (Add_ee_layer m obj v nm) s (\<lambda>_.
       k (set_map m ((get_map m s)\<lparr>layers :=
            put_layer \<lparr>ee_object = obj, vis = v, layer_name = nm\<rparr> (layers (get_map m s))\<rparr>) s))"

definition add_colorbar_branca ::
  "map_id \<Rightarrow> vis_val \<Rightarrow> vis_val \<Rightarrow> vis_val \<Rightarrow> string option \<Rightarrow> string option \<Rightarrow>
   'n nb \<Rightarrow> ('n nb \<Rightarrow> 'n prog) \<Rightarrow> 'n prog" where
  "add_colorbar_branca m c lo hi lname pos s k =
     Call (Add_colorbar_branca m c lo hi lname pos) s (\<lambda>_.
       k (set_map m ((get_map m s)\<lparr>colorbars := colorbars (get_map m s) @
            [\<lparr>colors = c, vmin = lo, vmax = hi, cb_layer_name = lname, position = pos\<rparr>]\<rparr>) s))"

text \<open>
  The colour bar's arguments \<^verbatim>\<open>vis_ndvi['properties']['palette']\<close>, \<^verbatim>\<open>['min']\<close> and
  \<^verbatim>\<open>['max']\<close> are looked up, in this order, before the call.
\<close>

definition colorbar_of_vis_ndvi ::
  "map_id \<Rightarrow> string option \<Rightarrow> string option \<Rightarrow> 'n nb \<Rightarrow> ('n nb \<Rightarrow> 'n prog) \<Rightarrow> 'n prog" where
  "colorbar_of_vis_ndvi m lname pos s k =
     getitem (properties (vis_ndvi s)) ''palette'' s (\<lambda>c.
     getitem (properties (vis_ndvi s)) ''min'' s (\<lambda>lo.
     getitem (properties (vis_ndvi s)) ''max'' s (\<lambda>hi.
     add_colorbar_branca m c lo hi lname pos s k)))"

definition display_map :: "map_id \<Rightarrow> 'n nb \<Rightarrow> 'n nb" where
  "display_map m s = s\<lparr>out := out s @ [Display_map (get_map m s)]\<rparr>"

definition print :: "string \<Rightarrow> 'n nb \<Rightarrow> 'n nb" where
  "print line s = s\<lparr>out := out s @ [Printed line]\<rparr>"

text \<open>The escape sequences \<^verbatim>\<open>\033[1m\<close> and \<^verbatim>\<open>\033[0m\<close> of the two printed sentences.\<close>

definition bold_on :: string where
  "bold_on = CHR 0x1B # ''[1m''"

definition bold_off :: string where
  "bold_off = CHR 0x1B # ''[0m''"

subsection \<open>The cells\<close>

text \<open>
  The cells are numbered by their position in the notebook, from 0, markdown cells
  counted: the first code cell is the third cell, \<open>cell_2\<close>.
\<close>

definition map_center :: "real \<times> real" where
  "map_center = (47.02882844813948, 4.948176654205355)"

definition cell_2 :: "'n nb \<Rightarrow> 'n prog" where
  "cell_2 s =
     Call (New_Map map_center 11 True (Some False) False) s (\<lambda>_.
     Done (s\<lparr>burgundy_map := Map map_center 11 True (Some False) False\<rparr>))"

definition cell_4 :: "'n nb \<Rightarrow> 'n nb" where
  "cell_4 s0 =
     (let s1 = s0\<lparr>clip_area := Polygon [[(4.647364477, 46.9062950917),
                     (5.1135967769, 46.9062950917), (5.1135967769, 47.1193160686),
                     (4.647364477, 47.1193160686), (4.647364477, 46.9062950917)]]\<rparr>;
          s2 = s1\<lparr>study_area := Point (4.744932, 47.040085)\<rparr>;
          s3 = s2\<lparr>study_date := (''2022-08-01'', ''2022-08-31'')\<rparr>
      in s3\<lparr>image_2022 :=
           Clip (First (Sort (FilterBounds
             (FilterDate (ImageCollection ''LANDSAT/LC09/C02/T1_L2'')
                (fst (study_date s3)) (snd (study_date s3)))
             (study_area s3)) ''CLOUD_COVER'')) (clip_area s3)\<rparr>)"

definition cell_6 :: "'n builtins \<Rightarrow> 'n nb \<Rightarrow> 'n prog" where
  "cell_6 b s0 =
     Call (Image_props (image_2022 s0)) s0 (\<lambda>_.
     let s1 = s0\<lparr>props := ImageProps (image_2022 s0)\<rparr> in
     Call (GetInfo (Get (props s1) ''IMAGE_DATE'')) s1 (\<lambda>d.
     let s2 = s1\<lparr>landsat_date := d\<rparr> in
     Call (GetInfo (Get (props s2) ''CLOUD_COVER_LAND'')) s2 (\<lambda>c.
     let s3 = s2\<lparr>landsat_cloud := c\<rparr> in
     Done (print
       (''The clearest Landsat-9 photo during the 2022 harvest season for our region was taken on ''
        @ bold_on @ py_str b (landsat_date s3) @ bold_off @ '' with a cloud cover of ''
        @ bold_on @ py_str b (landsat_cloud s3) @ ''%'' @ bold_off) s3))))"

definition applyScaleFactors :: "ee_obj \<Rightarrow> ee_obj" where
  "applyScaleFactors img =
     (let opticalBands = Add (Multiply (Select img ''SR_B.'') (Constant 0.0000275))
                             (Constant (- 0.2));
          thermalBands = Add (Multiply (Select img ''ST_B.*'') (Constant 0.00341802))
                             (Constant 149.0)
      in AddBands (AddBands img opticalBands None True) thermalBands None True)"

definition cell_9 :: "'n nb \<Rightarrow> 'n nb" where
  "cell_9 s = s\<lparr>landsat_8_data_2022 := applyScaleFactors (image_2022 s)\<rparr>"

text \<open>The dictionary literals of the display parameters, as the cells declare them.\<close>

definition landsat_nat_literal :: vis_entry where
  "landsat_nat_literal =
     \<lparr>name = ''Natural Color (4,3,2)'',
      properties = [(''bands'', VList [''SR_B4'', ''SR_B3'', ''SR_B2'']),
                    (''min'', VNum 0.0), (''max'', VNum 0.3)]\<rparr>"

definition landsat_IR_literal :: vis_entry where
  "landsat_IR_literal =
     \<lparr>name = ''False Color (5,4,3)'',
      properties = [(''bands'', VList [''SR_B5'', ''SR_B4'', ''SR_B3'']),
                    (''min'', VNum 0.0), (''max'', VNum 0.5)]\<rparr>"

definition landsat_veg_literal :: vis_entry where
  "landsat_veg_literal =
     \<lparr>name = ''Vegatation Visualization (6,5,4)'',
      properties = [(''bands'', VList [''SR_B6'', ''SR_B5'', ''SR_B4'']),
                    (''min'', VNum 0.0), (''max'', VNum 0.7)]\<rparr>"

definition vis_ndvi_literal :: vis_entry where
  "vis_ndvi_literal =
     \<lparr>name = ''NDVI'',
      properties = [(''min'', VNum (- 0.2)), (''max'', VNum 1.0),
                    (''palette'', VList [''FFFFFF'', ''CE7E45'', ''DF923D'', ''F1B555'',
                       ''FCD163'', ''99B718'', ''74A901'', ''66A000'', ''529400'', ''3E8601'',
                       ''207401'', ''056201'', ''004C00'', ''023B01'', ''012E01'', ''011D01'',
                       ''011301''])]\<rparr>"

definition sentinel_nat_literal :: vis_entry where
  "sentinel_nat_literal =
     \<lparr>name = ''Natural Color (4,3,2)'',
      properties = [(''bands'', VList [''B4'', ''B3'', ''B2'']),
                    (''min'', VNum 0.0), (''max'', VNum 0.3)]\<rparr>"

definition sentinel_IR_literal :: vis_entry where
  "sentinel_IR_literal =
     \<lparr>name = ''False Color (8,4,3)'',
      properties = [(''bands'', VList [''B8'', ''B4'', ''B3'']),
                    (''min'', VNum 0.0), (''max'', VNum 0.5)]\<rparr>"

definition cell_11 :: "'n nb \<Rightarrow> 'n nb" where
  "cell_11 s =
     s\<lparr>landsat_nat := landsat_nat_literal, landsat_IR := landsat_IR_literal,
       landsat_veg := landsat_veg_literal, vis_ndvi := vis_ndvi_literal\<rparr>"

definition cell_13 :: "'n nb \<Rightarrow> 'n prog" where
  "cell_13 s0 =
     add_ee_layer Burgundy_map (landsat_8_data_2022 s0) (properties (landsat_IR s0))
       (''2022 '' @ name (landsat_IR s0)) s0 (\<lambda>s1.
     add_ee_layer Burgundy_map (landsat_8_data_2022 s1) (properties (landsat_nat s1))
       (''2022 '' @ name (landsat_nat s1)) s1 (\<lambda>s2.
     Done (display_map Burgundy_map s2)))"

definition cell_16 :: "'n nb \<Rightarrow> 'n nb" where
  "cell_16 s0 =
     (let s1 = s0\<lparr>landsat_NIR := Select (image_2022 s0) ''SR_B5''\<rparr>;
          s2 = s1\<lparr>landsat_red := Select (image_2022 s1) ''SR_B4''\<rparr>
      in s2\<lparr>landsat_ndvi :=
           Rename (Divide (Subtract (landsat_NIR s2) (landsat_red s2))
                          (Add (landsat_NIR s2) (landsat_red s2))) ''Landsat NDVI''\<rparr>)"

definition cell_18 :: "'n nb \<Rightarrow> 'n prog" where
  "cell_18 s0 =
     add_ee_layer Burgundy_map (landsat_ndvi s0) (properties (vis_ndvi s0))
       ''Landsat NDVI'' s0 (\<lambda>s1.
     colorbar_of_vis_ndvi Burgundy_map (Some ''Landsat NDVI'') None s1 (\<lambda>s2.
     Done (display_map Burgundy_map s2)))"

definition cell_21 :: "'n nb \<Rightarrow> 'n nb" where
  "cell_21 s0 =
     (let s1 = s0\<lparr>sentinel_2022 :=
             Clip (First (Sort (FilterBounds
               (FilterDate (ImageCollection ''COPERNICUS/S2_SR_HARMONIZED'')
                  (fst (study_date s0)) (snd (study_date s0)))
               (study_area s0)) ''HIGH_PROBA_CLOUDS_PERCENTAGE'')) (clip_area s0)\<rparr>
      in s1\<lparr>sentinel_2022_data := Divide (sentinel_2022 s1) (Constant 10000)\<rparr>)"

definition cell_23 :: "'n builtins \<Rightarrow> 'n nb \<Rightarrow> 'n prog" where
  "cell_23 b s0 =
     Call (Image_props (sentinel_2022 s0)) s0 (\<lambda>_.
     let s1 = s0\<lparr>props2 := ImageProps (sentinel_2022 s0)\<rparr> in
     Call (GetInfo (Get (props2 s1) ''IMAGE_DATE'')) s1 (\<lambda>d.
     let s2 = s1\<lparr>sentinel_date := d\<rparr> in
     Call (GetInfo (Get (props2 s2) ''CLOUDY_PIXEL_PERCENTAGE'')) s2 (\<lambda>c.
     py_round b c s2 (\<lambda>c2.
     let s3 = s2\<lparr>sentinel_cloud := c2\<rparr> in
     Done (print
       (''The clearest Sentinel photo during the 2022 harvest season for our region was taken on ''
        @ bold_on @ py_str b (sentinel_date s3) @ bold_off @ '' with a cloud cover of ''
        @ bold_on @ py_str b (sentinel_cloud s3) @ ''%'' @ bold_off) s3)))))"

definition cell_25 :: "'n nb \<Rightarrow> 'n nb" where
  "cell_25 s = s\<lparr>sentinel_nat := sentinel_nat_literal, sentinel_IR := sentinel_IR_literal\<rparr>"

definition cell_26 :: "'n nb \<Rightarrow> 'n prog" where
  "cell_26 s0 =
     Call (New_Map map_center 11 True (Some False) False) s0 (\<lambda>_.
     let s1 = s0\<lparr>sentinel_map := Map map_center 11 True (Some False) False\<rparr> in
     add_ee_layer Sentinel_map (sentinel_2022_data s1) (properties (sentinel_nat s1))
       (name (sentinel_nat s1)) s1 (\<lambda>s2.
     add_ee_layer Sentinel_map (sentinel_2022_data s2) (properties (sentinel_IR s2))
       (name (sentinel_IR s2)) s2 (\<lambda>s3.
     Done (display_map Sentinel_map s3))))"

definition cell_28 :: "'n nb \<Rightarrow> 'n nb" where
  "cell_28 s0 =
     (let s1 = s0\<lparr>sentinel_NIR := Select (sentinel_2022_data s0) ''B8''\<rparr>;
          s2 = s1\<lparr>sentinel_red := Select (sentinel_2022_data s1) ''B4''\<rparr>
      in s2\<lparr>sentinel_ndvi :=
           Rename (Divide (Subtract (sentinel_NIR s2) (sentinel_red s2))
                          (Add (sentinel_NIR s2) (sentinel_red s2))) ''Sentinel NDVI''\<rparr>)"

definition cell_30 :: "'n builtins \<Rightarrow> 'n nb \<Rightarrow> 'n prog" where
  "cell_30 b s0 =
     Call (Ee_tile_layer (landsat_ndvi s0) (properties (vis_ndvi s0)) ''Landsat NDVI'') s0 (\<lambda>_.
     let s1 = s0\<lparr>landsat_layer := \<lparr>ee_object = landsat_ndvi s0,
                   vis = properties (vis_ndvi s0), layer_name = ''Landsat NDVI''\<rparr>\<rparr> in
     Call (Ee_tile_layer (sentinel_ndvi s1) (properties (vis_ndvi s1)) ''Sentinel NDVI'') s1 (\<lambda>_.
     let s2 = s1\<lparr>sentinel_layer := \<lparr>ee_object = sentinel_ndvi s1,
                   vis = properties (vis_ndvi s1), layer_name = ''Sentinel NDVI''\<rparr>\<rparr> in
     Call (New_Map map_center 11 True (Some False) False) s2 (\<lambda>_.
     let s3 = s2\<lparr>split := Map map_center 11 True (Some False) False\<rparr>;
         left_label = ''<center>Landsat 9 NDVI<br>'' @ py_str b (landsat_date s3) @ ''</center>'';
         right_label = ''<center>Sentinel-2 NDVI<br>'' @ py_str b (sentinel_date s3) @ ''</center>''
     in
     Call (Split_map (landsat_layer s3) (sentinel_layer s3) left_label right_label) s3 (\<lambda>_.
     let s4 = s3\<lparr>split := (split s3)\<lparr>split_layers :=
                   Some (landsat_layer s3, sentinel_layer s3, left_label, right_label)\<rparr>\<rparr> in
     colorbar_of_vis_ndvi Split None None s4 Done))))"

definition cell_31 :: "'n nb \<Rightarrow> 'n nb" where
  "cell_31 s = display_map Split s"

definition cell_36 :: "'n nb \<Rightarrow> 'n nb" where
  "cell_36 s0 =
     (let s1 = s0\<lparr>scores :=
            [\<lparr>Year = 2017, Wine_Score = Some 93, Mean_NDVI = PyNone, Photo_Date = PyStr []\<rparr>,
             \<lparr>Year = 2018, Wine_Score = Some 92, Mean_NDVI = PyNone, Photo_Date = PyStr []\<rparr>,
             \<lparr>Year = 2019, Wine_Score = Some 95, Mean_NDVI = PyNone, Photo_Date = PyStr []\<rparr>,
             \<lparr>Year = 2020, Wine_Score = Some 94, Mean_NDVI = PyNone, Photo_Date = PyStr []\<rparr>,
             \<lparr>Year = 2021, Wine_Score = None, Mean_NDVI = PyNone, Photo_Date = PyStr []\<rparr>,
             \<lparr>Year = 2022, Wine_Score = None, Mean_NDVI = PyNone, Photo_Date = PyStr []\<rparr>]\<rparr>;
          s2 = s1\<lparr>wine_scores := scores s1\<rparr>
      in s2\<lparr>out := out s2 @ [Display_table (wine_scores s2)]\<rparr>)"

text \<open>
  \<^verbatim>\<open>wine_scores.loc[wine_scores['Year'] == year, column] = value\<close>: the cell of the
  column is set in every row whose year is the given one.
\<close>

definition loc_set_Mean_NDVI :: "int \<Rightarrow> 'n pyval \<Rightarrow> 'n row list \<Rightarrow> 'n row list" where
  "loc_set_Mean_NDVI y v t = map (\<lambda>r. if Year r = y then r\<lparr>Mean_NDVI := v\<rparr> else r) t"

definition loc_set_Photo_Date :: "int \<Rightarrow> 'n pyval \<Rightarrow> 'n row list \<Rightarrow> 'n row list" where
  "loc_set_Photo_Date y v t = map (\<lambda>r. if Year r = y then r\<lparr>Photo_Date := v\<rparr> else r) t"

text \<open>The body of the loop over the years begins with four groups of assignments.\<close>

definition get_image :: "'n nb \<Rightarrow> 'n nb" where
  "get_image s =
     s\<lparr>image_var :=
         Clip (First (Sort (FilterBounds
           (FilterDate (ImageCollection ''COPERNICUS/S2_SR_HARMONIZED'')
              (str_int (year s) @ drop 4 (fst (study_date s)))
              (str_int (year s) @ drop 4 (snd (study_date s))))
           (study_area s)) ''HIGH_PROBA_CLOUDS_PERCENTAGE'')) (clip_area s)\<rparr>"

definition scale_image :: "'n nb \<Rightarrow> 'n nb" where
  "scale_image s = s\<lparr>image_data := Divide (image_var s) (Constant 10000)\<rparr>"

definition calculate_ndvi :: "'n nb \<Rightarrow> 'n nb" where
  "calculate_ndvi s0 =
     (let s1 = s0\<lparr>NIR := Select (image_data s0) ''B8''\<rparr>;
          s2 = s1\<lparr>red := Select (image_data s1) ''B4''\<rparr>
      in s2\<lparr>ndvi := Divide (Subtract (NIR s2) (red s2)) (Add (NIR s2) (red s2))\<rparr>)"

definition calculate_mean :: "'n nb \<Rightarrow> 'n nb" where
  "calculate_mean s =
     s\<lparr>mean_ndvi := ReduceRegion (ndvi s) Reducer_mean (clip_area s) 10 1000000000\<rparr>"

text \<open>
  The rest of the body, from the state the assignments left: the mean is asked for, the
  photo's date is asked for, both go into the table, the NDVI is added to the map as a
  layer, the cloud coverage is asked for and printed, and the year's entry is stored.
\<close>

definition ask_and_record :: "'n builtins \<Rightarrow> 'n nb \<Rightarrow> 'n prog" where
  "ask_and_record b s0 =
     Call (GetInfo (Get (mean_ndvi s0) ''B8'')) s0 (\<lambda>m.
     let s1 = s0\<lparr>mean_final := m\<rparr> in
     Call (Image_props (image_var s1)) s1 (\<lambda>_.
     let s2 = s1\<lparr>image_info := ImageProps (image_var s1)\<rparr> in
     Call (GetInfo (Get (image_info s2) ''IMAGE_DATE'')) s2 (\<lambda>d.
     let s3 = s2\<lparr>date := d\<rparr>;
         s4 = s3\<lparr>wine_scores := loc_set_Mean_NDVI (year s3) (mean_final s3) (wine_scores s3)\<rparr>;
         s5 = s4\<lparr>wine_scores := loc_set_Photo_Date (year s4) (date s4) (wine_scores s4)\<rparr>
     in
     py_round b (mean_final s5) s5 (\<lambda>rounded.
     add_ee_layer Ndvi_map (ndvi s5) (properties (vis_ndvi s5))
       (py_str b (date s5) @ '' - Mean NDVI: '' @ py_str b rounded) s5 (\<lambda>s6.
     Call (GetInfo (Get (image_info s6) ''CLOUD_COVERAGE_ASSESSMENT'')) s6 (\<lambda>c.
     py_round b c s6 (\<lambda>cloud.
     let s7 = print (''Cloud coverage for the best photo from August '' @ str_int (year s6)
                     @ '' was '' @ py_str b cloud @ ''%'') s6
     in
     Done (s7\<lparr>images := (images s7)(str_int (year s7) \<mapsto>
             \<lparr>mean_ndvi_entry = mean_final s7, image_entry = ndvi s7\<rparr>)\<rparr>))))))))"

definition loop_body :: "'n builtins \<Rightarrow> int \<Rightarrow> 'n nb \<Rightarrow> 'n prog" where
  "loop_body b y s =
     ask_and_record b
       (calculate_mean (calculate_ndvi (scale_image (get_image (s\<lparr>year := y\<rparr>)))))"

definition cell_37 :: "'n builtins \<Rightarrow> 'n nb \<Rightarrow> 'n prog" where
  "cell_37 b s0 =
     (let s1 = s0\<lparr>years := [2017, 2018, 2019, 2020, 2021, 2022]\<rparr>;
          s2 = s1\<lparr>images := Map.empty\<rparr>
      in
      Call (New_Map map_center 11 True None False) s2 (\<lambda>_.
      let s3 = s2\<lparr>ndvi_map := Map map_center 11 True None False\<rparr> in
      for_each (years s3) (loop_body b) s3))"

definition cell_39 :: "'n nb \<Rightarrow> 'n prog" where
  "cell_39 s0 =
     colorbar_of_vis_ndvi Ndvi_map None (Some ''bottomright'') s0 (\<lambda>s1.
     Done (display_map Ndvi_map s1))"

definition cell_41 :: "'n nb \<Rightarrow> 'n nb" where
  "cell_41 s = s\<lparr>out := out s @ [Display_table (wine_scores s)]\<rparr>"

text \<open>The notebook: the code cells in order, each run from the state the one before left.\<close>

definition assign :: "('n nb \<Rightarrow> 'n nb) \<Rightarrow> 'n nb \<Rightarrow> 'n prog" where
  "assign f s = Done (f s)"

definition cells :: "'n builtins \<Rightarrow> ('n nb \<Rightarrow> 'n prog) list" where
  "cells b =
     [cell_2, assign cell_4, cell_6 b, assign cell_9, assign cell_11, cell_13,
      assign cell_16, cell_18, assign cell_21, cell_23 b, assign cell_25, cell_26,
      assign cell_28, cell_30 b, assign cell_31, assign cell_36, cell_37 b, cell_39,
      assign cell_41]"

definition notebook :: "'n builtins \<Rightarrow> 'n nb \<Rightarrow> 'n prog" where
  "notebook b s = for_each (cells b) (\<lambda>c. c) s"

text \<open>A kernel in which no cell has run: every variable holds an empty value.\<close>

definition no_map :: map_widget where
  "no_map = Map (0, 0) 0 False None False"

definition no_vis :: vis_entry where
  "no_vis = \<lparr>name = [], properties = []\<rparr>"

definition no_layer :: layer where
  "no_layer = \<lparr>ee_object = ImageCollection [], vis = [], layer_name = []\<rparr>"

definition fresh_kernel :: "'n nb" where
  "fresh_kernel =
     \<lparr>burgundy_map = no_map, clip_area = Polygon [], study_area = Polygon [],
      study_date = ([], []), image_2022 = ImageCollection [], props = ImageCollection [],
      landsat_date = PyNone, landsat_cloud = PyNone,
      landsat_8_data_2022 = ImageCollection [],
      landsat_nat = no_vis, landsat_IR = no_vis, landsat_veg = no_vis, vis_ndvi = no_vis,
      landsat_NIR = ImageCollection [], landsat_red = ImageCollection [],
      landsat_ndvi = ImageCollection [], sentinel_2022 = ImageCollection [],
      sentinel_2022_data = ImageCollection [], props2 = ImageCollection [],
      sentinel_date = PyNone, sentinel_cloud = PyNone,
      sentinel_nat = no_vis, sentinel_IR = no_vis, sentinel_map = no_map,
      sentinel_NIR = ImageCollection [], sentinel_red = ImageCollection [],
      sentinel_ndvi = ImageCollection [], landsat_layer = no_layer,
      sentinel_layer = no_layer, split = no_map, scores = [], wine_scores = [],
      years = [], images = Map.empty, ndvi_map = no_map, year = 0,
      image_var = ImageCollection [], image_data = ImageCollection [],
      NIR = ImageCollection [], red = ImageCollection [], ndvi = ImageCollection [],
      mean_ndvi = ImageCollection [], mean_final = PyNone,
      image_info = ImageCollection [], date = PyNone, out = []\<rparr>"

subsection \<open>What the engine computes for band arithmetic\<close>

text \<open>
  The notebook never sees a pixel: the rasters live in the engine. To say what an NDVI
  expression denotes, the band arithmetic of the imagery API is given its documented
  per-pixel reading:
  \<^item> an image is a list of named bands, a band gives each pixel a value or nothing (a
    masked pixel);
  \<^item> \<open>select\<close> with a plain band name keeps that band;
  \<^item> \<open>add\<close>, \<open>subtract\<close>, \<open>multiply\<close> and \<open>divide\<close> work pixel by pixel on matched
    bands: band by band when both images have as many bands, and a one-band image
    against every band of the other; the result is masked where an input is; the bands
    keep the names of the first image, or of the longer one;
  \<^item> \<open>rename\<close> with one name renames the band of a one-band image.
  Every other object (collections, filters, clipping, a \<open>select\<close> with a pattern, any
  combination of bands not listed) denotes whatever the engine says: the parameter
  \<open>src\<close>. \<open>None\<close> is an expression the engine cannot evaluate.

  The numbers the engine computes with are not in the notebook either. The type of a
  pixel's value, the four operations on two values and the value of a Python number
  given as a constant are a parameter too: an \<open>arithmetic\<close>.
\<close>

record 'v arithmetic =
  px_add :: "'v \<Rightarrow> 'v \<Rightarrow> 'v"
  px_subtract :: "'v \<Rightarrow> 'v \<Rightarrow> 'v"
  px_multiply :: "'v \<Rightarrow> 'v \<Rightarrow> 'v"
  px_divide :: "'v \<Rightarrow> 'v \<Rightarrow> 'v"
  px_constant :: "real \<Rightarrow> 'v"

type_synonym ('p, 'v) raster = "'p \<Rightarrow> 'v option"

type_synonym ('p, 'v) bands = "(string \<times> ('p, 'v) raster) list"

definition pointwise ::
  "('v \<Rightarrow> 'v \<Rightarrow> 'v) \<Rightarrow> ('p, 'v) raster \<Rightarrow> ('p, 'v) raster \<Rightarrow> ('p, 'v) raster" where
  "pointwise f g h = (\<lambda>p. case (g p, h p) of (Some a, Some c) \<Rightarrow> Some (f a c) | _ \<Rightarrow> None)"

definition band_op ::
  "('v \<Rightarrow> 'v \<Rightarrow> 'v) \<Rightarrow> ('p, 'v) bands \<Rightarrow> ('p, 'v) bands \<Rightarrow> ('p, 'v) bands option" where
  "band_op f xs ys =
     (if length xs = length ys
      then Some (map2 (\<lambda>(n, g) (m, h). (n, pointwise f g h)) xs ys)
      else case ys of
             [(m, h)] \<Rightarrow> Some (map (\<lambda>(n, g). (n, pointwise f g h)) xs)
           | _ \<Rightarrow> (case xs of
                    [(n, g)] \<Rightarrow> Some (map (\<lambda>(m, h). (m, pointwise f g h)) ys)
                  | _ \<Rightarrow> None))"

definition arith ::
  "('v \<Rightarrow> 'v \<Rightarrow> 'v) \<Rightarrow> ('p, 'v) bands option \<Rightarrow> ('p, 'v) bands option \<Rightarrow>
   ('p, 'v) bands option \<Rightarrow> ('p, 'v) bands option" where
  "arith f other ex ey =
     (case (ex, ey) of
        (Some xs, Some ys) \<Rightarrow> (case band_op f xs ys of Some r \<Rightarrow> Some r | None \<Rightarrow> other)
      | _ \<Rightarrow> None)"

definition plain_name :: "string \<Rightarrow> bool" where
  "plain_name n = (set n \<inter> set (CHR 0x5C # ''.*+?[](){}|^$'') = {})"

fun eval ::
  "'v arithmetic \<Rightarrow> (ee_obj \<Rightarrow> ('p, 'v) bands option) \<Rightarrow> ee_obj \<Rightarrow> ('p, 'v) bands option" where
  "eval ar src (Constant c) = Some [(''constant'', \<lambda>p. Some (px_constant ar c))]"
| "eval ar src (Select e n) =
     (if plain_name n
      then (case eval ar src e of
              None \<Rightarrow> None
            | Some bs \<Rightarrow> (case map_of bs n of None \<Rightarrow> None | Some g \<Rightarrow> Some [(n, g)]))
      else src (Select e n))"
| "eval ar src (Add e1 e2) =
     arith (px_add ar) (src (Add e1 e2)) (eval ar src e1) (eval ar src e2)"
| "eval ar src (Subtract e1 e2) =
     arith (px_subtract ar) (src (Subtract e1 e2)) (eval ar src e1) (eval ar src e2)"
| "eval ar src (Multiply e1 e2) =
     arith (px_multiply ar) (src (Multiply e1 e2)) (eval ar src e1) (eval ar src e2)"
| "eval ar src (Divide e1 e2) =
     arith (px_divide ar) (src (Divide e1 e2)) (eval ar src e1) (eval ar src e2)"
| "eval ar src (Rename e n) =
     (case eval ar src e of
        None \<Rightarrow> None
      | Some [(m, g)] \<Rightarrow> Some [(n, g)]
      | Some _ \<Rightarrow> src (Rename e n))"
| "eval ar src e = src e"

text \<open>The value an image has in a band at a pixel, if any.\<close>

definition value_at :: "('p, 'v) bands option \<Rightarrow> string \<Rightarrow> 'p \<Rightarrow> 'v option" where
  "value_at img n p =
     (case img of
        None \<Rightarrow> None
      | Some bs \<Rightarrow> (case map_of bs n of None \<Rightarrow> None | Some g \<Rightarrow> g p))"

text \<open>
  The formula of the glossary, \<open>(NIR - Red) / (NIR + Red)\<close>, in an arithmetic: a raster
  \<open>f\<close> is the NDVI of the rasters \<open>nir\<close> and \<open>rd\<close> when, at every pixel where both are
  present, it has the value the arithmetic gives the formula.
\<close>

definition is_ndvi_of ::
  "'v arithmetic \<Rightarrow> ('p, 'v) raster \<Rightarrow> ('p, 'v) raster \<Rightarrow> ('p, 'v) raster \<Rightarrow> bool" where
  "is_ndvi_of ar f nir rd =
     (\<forall>p a c. nir p = Some a \<and> rd p = Some c \<longrightarrow>
        f p = Some (px_divide ar (px_subtract ar a c) (px_add ar a c)))"

subsection \<open>Two arithmetics\<close>

text \<open>
  Exact arithmetic on the real numbers, with the API's documented quotient 0 where the
  divisor is 0. In it the formula is the rational function itself: \<open>is_exact_ndvi_of\<close>
  says that a raster has the value \<open>(a - c) / (a + c)\<close> at every pixel where both bands
  are present, with the values \<open>a\<close> and \<open>c\<close>, and the formula is defined.
\<close>

definition exact_divide :: "real \<Rightarrow> real \<Rightarrow> real" where
  "exact_divide a c = (if c = 0 then 0 else a / c)"

definition exact_arithmetic :: "real arithmetic" where
  "exact_arithmetic =
     \<lparr>px_add = (+), px_subtract = (-), px_multiply = (*), px_divide = exact_divide,
      px_constant = (\<lambda>c. c)\<rparr>"

definition is_exact_ndvi_of ::
  "('p, real) raster \<Rightarrow> ('p, real) raster \<Rightarrow> ('p, real) raster \<Rightarrow> bool" where
  "is_exact_ndvi_of f nir rd =
     (\<forall>p a c. nir p = Some a \<and> rd p = Some c \<and> a + c \<noteq> 0 \<longrightarrow>
        f p = Some ((a - c) / (a + c)))"

text \<open>
  Binary floating-point arithmetic with \<open>p\<close> significant bits, as the engine's numbers
  are (24 bits in single, 53 in double precision): the values are the real numbers
  that can be written with \<open>p\<close> bits, every operation gives the exact result rounded
  to the nearest such number, and a tie goes to the one whose last bit is 0. The range
  of the exponent is not bounded here, so nothing overflows.
\<close>

definition round_half_even :: "real \<Rightarrow> int" where
  "round_half_even x =
     (if x - of_int \<lfloor>x\<rfloor> < 1 / 2 then \<lfloor>x\<rfloor>
      else if 1 / 2 < x - of_int \<lfloor>x\<rfloor> then \<lfloor>x\<rfloor> + 1
      else if even \<lfloor>x\<rfloor> then \<lfloor>x\<rfloor> else \<lfloor>x\<rfloor> + 1)"

definition float_round :: "nat \<Rightarrow> real \<Rightarrow> real" where
  "float_round p x =
     (if x = 0 then 0
      else of_int (round_half_even (x / 2 powi (\<lfloor>log 2 \<bar>x\<bar>\<rfloor> - int p + 1))) *
           2 powi (\<lfloor>log 2 \<bar>x\<bar>\<rfloor> - int p + 1))"

definition float_arithmetic :: "nat \<Rightarrow> real arithmetic" where
  "float_arithmetic p =
     \<lparr>px_add = (\<lambda>a c. float_round p (a + c)),
      px_subtract = (\<lambda>a c. float_round p (a - c)),
      px_multiply = (\<lambda>a c. float_round p (a * c)),
      px_divide = (\<lambda>a c. if c = 0 then 0 else float_round p (a / c)),
      px_constant = float_round p\<rparr>"

text \<open>
  Sample inputs for checking the statements below on concrete values: a fresh kernel
  whose Python numbers are natural numbers, and two engines, on pixels numbered by the
  natural numbers: in one every image has the bands \<^verbatim>\<open>SR_B5\<close> and \<^verbatim>\<open>B8\<close> at 3 and
  \<^verbatim>\<open>SR_B4\<close> and \<^verbatim>\<open>B4\<close> at 1, in the other the bands \<^verbatim>\<open>B8\<close> at 3000 and \<^verbatim>\<open>B4\<close> at 1000,
  two reflectances as the Sentinel collection stores them.
\<close>

definition sample_kernel :: "nat nb" where
  "sample_kernel = fresh_kernel"

definition sample_bands :: "(nat, real) bands" where
  "sample_bands =
     [(''SR_B5'', \<lambda>p. Some 3), (''SR_B4'', \<lambda>p. Some 1),
      (''B8'', \<lambda>p. Some 3), (''B4'', \<lambda>p. Some 1)]"

definition sample_src :: "ee_obj \<Rightarrow> (nat, real) bands option" where
  "sample_src e = Some sample_bands"

definition vineyard_bands :: "(nat, real) bands" where
  "vineyard_bands = [(''B8'', \<lambda>p. Some 3000), (''B4'', \<lambda>p. Some 1000)]"

definition vineyard_src :: "ee_obj \<Rightarrow> (nat, real) bands option" where
  "vineyard_src e = Some vineyard_bands"

subsection \<open>The method calls behind an object\<close>

text \<open>
  Every object is built by one method call on the objects it is made of, so the calls
  that led to an object can be read off it: the calls behind its parts, in Python's
  order of evaluation (the receiver first, then the arguments), then the call that
  made it. The reducer passed to \<^verbatim>\<open>reduceRegion\<close> is made by a call of its own,
  \<^verbatim>\<open>ee.Reducer.mean()\<close>, in the argument list. A number promoted to a constant image is
  an argument, not a call. A part held in a variable and used twice was built once:
  \<open>created\<close> keeps the first occurrence of each call.
\<close>

fun behind :: "ee_obj \<Rightarrow> ee_obj list" where
  "behind (ImageCollection n) = [ImageCollection n]"
| "behind (FilterDate e a c) = behind e @ [FilterDate e a c]"
| "behind (FilterBounds e g) = behind e @ [FilterBounds e g]"
| "behind (Sort e k) = behind e @ [Sort e k]"
| "behind (First e) = behind e @ [First e]"
| "behind (Clip e g) = behind e @ [Clip e g]"
| "behind (Constant c) = []"
| "behind (Select e n) = behind e @ [Select e n]"
| "behind (Add e1 e2) = behind e1 @ behind e2 @ [Add e1 e2]"
| "behind (Subtract e1 e2) = behind e1 @ behind e2 @ [Subtract e1 e2]"
| "behind (Multiply e1 e2) = behind e1 @ behind e2 @ [Multiply e1 e2]"
| "behind (Divide e1 e2) = behind e1 @ behind e2 @ [Divide e1 e2]"
| "behind (AddBands e1 e2 ns ov) = behind e1 @ behind e2 @ [AddBands e1 e2 ns ov]"
| "behind (Rename e n) = behind e @ [Rename e n]"
| "behind Reducer_mean = [Reducer_mean]"
| "behind (ReduceRegion e r g sc mp) = behind e @ behind r @ [ReduceRegion e r g sc mp]"
| "behind (Get e k) = behind e @ [Get e k]"
| "behind (ImageProps e) = behind e @ [ImageProps e]"

definition created :: "ee_obj \<Rightarrow> ee_obj list" where
  "created e = rev (remdups (rev (behind e)))"

fun method_of :: "ee_obj \<Rightarrow> string" where
  "method_of (ImageCollection n) = ''ImageCollection''"
| "method_of (FilterDate e a c) = ''filterDate''"
| "method_of (FilterBounds e g) = ''filterBounds''"
| "method_of (Sort e k) = ''sort''"
| "method_of (First e) = ''first''"
| "method_of (Clip e g) = ''clip''"
| "method_of (Constant c) = ''constant''"
| "method_of (Select e n) = ''select''"
| "method_of (Add e1 e2) = ''add''"
| "method_of (Subtract e1 e2) = ''subtract''"
| "method_of (Multiply e1 e2) = ''multiply''"
| "method_of (Divide e1 e2) = ''divide''"
| "method_of (AddBands e1 e2 ns ov) = ''addBands''"
| "method_of (Rename e n) = ''rename''"
| "method_of Reducer_mean = ''Reducer.mean''"
| "method_of (ReduceRegion e r g sc mp) = ''reduceRegion''"
| "method_of (Get e k) = ''get''"
| "method_of (ImageProps e) = ''image_props''"

text \<open>
  The eight operations the specification lists for the yearly pipeline, and the
  operation a call belongs to. Naming the collection is the start of the pipeline and
  belongs to none of them. Selecting a band and adding, subtracting and dividing bands
  belong to the NDVI step; making the mean reducer and reducing a region with it
  belong to the mean reduction.
\<close>

datatype operation =
    Filter_by_date
  | Filter_by_bounds
  | Sort_by_cloud_percentage
  | Take_first_result
  | Clip_to_polygon
  | Scale_bands
  | Subtract_divide_bands
  | Reduce_region_to_a_mean

fun operation_of :: "ee_obj \<Rightarrow> operation option" where
  "operation_of (FilterDate e a c) = Some Filter_by_date"
| "operation_of (FilterBounds e g) = Some Filter_by_bounds"
| "operation_of (Sort e k) =
     (if k = ''HIGH_PROBA_CLOUDS_PERCENTAGE'' then Some Sort_by_cloud_percentage else None)"
| "operation_of (First e) = Some Take_first_result"
| "operation_of (Clip e (Polygon ps)) = Some Clip_to_polygon"
| "operation_of (Divide e (Constant c)) = Some Scale_bands"
| "operation_of (Select e n) = Some Subtract_divide_bands"
| "operation_of (Add e1 e2) = Some Subtract_divide_bands"
| "operation_of (Subtract e1 e2) = Some Subtract_divide_bands"
| "operation_of (Divide e1 e2) = Some Subtract_divide_bands"
| "operation_of Reducer_mean = Some Reduce_region_to_a_mean"
| "operation_of (ReduceRegion e Reducer_mean g sc mp) = Some Reduce_region_to_a_mean"
| "operation_of e = None"

subsection \<open>Properties of requests\<close>

text \<open>
  A layer-adding call passes a declared dictionary verbatim when its display parameters
  are the \<^verbatim>\<open>'properties'\<close> of the literal the cell names at that call: on the first map
  the false-colour, natural-colour and NDVI literals, each with its layer name; on the
  Sentinel map the two Sentinel literals; for the tile layers and the layers of the
  yearly map the NDVI literal.
\<close>

fun passes_declared :: "request \<Rightarrow> bool" where
  "passes_declared (Add_ee_layer Burgundy_map obj v nm) =
     ((nm, v) \<in> {(''2022 '' @ name landsat_IR_literal, properties landsat_IR_literal),
                 (''2022 '' @ name landsat_nat_literal, properties landsat_nat_literal),
                 (''Landsat NDVI'', properties vis_ndvi_literal)})"
| "passes_declared (Add_ee_layer Sentinel_map obj v nm) =
     ((nm, v) \<in> {(name sentinel_nat_literal, properties sentinel_nat_literal),
                 (name sentinel_IR_literal, properties sentinel_IR_literal)})"
| "passes_declared (Add_ee_layer Ndvi_map obj v nm) = (v = properties vis_ndvi_literal)"
| "passes_declared (Add_ee_layer Split obj v nm) = False"
| "passes_declared (Ee_tile_layer obj v nm) = (v = properties vis_ndvi_literal)"
| "passes_declared r = True"

text \<open>The request for the value of a mean reduction of a region.\<close>

fun is_mean_request :: "request \<Rightarrow> bool" where
  "is_mean_request (GetInfo (Get (ReduceRegion e Reducer_mean g sc mp) k)) = True"
| "is_mean_request r = False"

text \<open>
  The requests whose answer a cell passes to \<^verbatim>\<open>round\<close>: the Sentinel image's cloudy
  pixel percentage, and in the loop the mean (the \<^verbatim>\<open>B8\<close> entry of the reduction) and the
  cloud coverage assessment.
\<close>

fun is_rounded :: "request \<Rightarrow> bool" where
  "is_rounded (GetInfo (Get e k)) =
     (k \<in> {''CLOUDY_PIXEL_PERCENTAGE'', ''B8'', ''CLOUD_COVERAGE_ASSESSMENT''})"
| "is_rounded r = False"

definition sample_builtins :: "nat builtins" where
  "sample_builtins = \<lparr>round2 = (\<lambda>n. n), repr = str_nat\<rparr>"

text \<open>
  Three engines: one answers every request with the number 1, one answers every request
  with an exception, one has no value for a mean (it answers \<^verbatim>\<open>None\<close>) and 1 for
  everything else.
\<close>

definition sample_engine :: "nat engine" where
  "sample_engine h r = Inr (PyNum 1)"

definition failing_engine :: "nat engine" where
  "failing_engine h r = Inl (Exception ''no connection'')"

definition null_mean_engine :: "nat engine" where
  "null_mean_engine h r = (if is_mean_request r then Inr PyNone else Inr (PyNum 1))"

subsection \<open>Reasoning about programs\<close>

text \<open>
  \<open>wp p h C Q E\<close>: in every run of \<open>p\<close> that starts after the transcript \<open>h\<close>, whatever the
  engine answers, every call satisfies \<open>C\<close> (of the request, the transcript before it and
  the state at the call), a run that finishes satisfies \<open>Q\<close> and an exception raised by a
  cell itself satisfies \<open>E\<close> (both of the transcript and the state reached).
\<close>

primrec wp ::
  "'n prog \<Rightarrow> 'n transcript \<Rightarrow> (request \<Rightarrow> 'n transcript \<Rightarrow> 'n nb \<Rightarrow> bool) \<Rightarrow>
   ('n transcript \<Rightarrow> 'n nb \<Rightarrow> bool) \<Rightarrow> ('n transcript \<Rightarrow> error \<Rightarrow> 'n nb \<Rightarrow> bool) \<Rightarrow> bool" where
  "wp (Done s) h C Q E = Q h s"
| "wp (Raise e s) h C Q E = E h e s"
| "wp (Call r s k) h C Q E = (C r h s \<and> (\<forall>v. wp (k v) (h @ [(r, Inr v)]) C Q E))"

subsection \<open>Assertions about the table\<close>

text \<open>
  What the calls of the loop body can have done to the table, from the state \<open>s0\<close> they
  start in: nothing, or the two columns of the year's rows are set.
\<close>

definition table_step :: "'n nb \<Rightarrow> 'n nb \<Rightarrow> bool" where
  "table_step s0 s' =
     (wine_scores s' = wine_scores s0 \<or>
      (\<exists>m d. wine_scores s' =
         loc_set_Photo_Date (year s0) d (loc_set_Mean_NDVI (year s0) m (wine_scores s0))))"

text \<open>The two columns of the table that are typed in by hand, as the cell gives them.\<close>

definition typed_columns :: "'n nb \<Rightarrow> bool" where
  "typed_columns s =
     (map Year (wine_scores s) = [2017, 2018, 2019, 2020, 2021, 2022] \<and>
      map Wine_Score (wine_scores s) = [Some 93, Some 92, Some 95, Some 94, None, None])"

text \<open>
  Some row has a number as its mean NDVI; some answer of a transcript that a cell rounds
  is not a number.
\<close>

definition some_mean_filled :: "'n nb \<Rightarrow> bool" where
  "some_mean_filled s = (\<exists>r n. r \<in> set (wine_scores s) \<and> Mean_NDVI r = PyNum n)"

definition not_all_numbers :: "'n transcript \<Rightarrow> bool" where
  "not_all_numbers h = (\<exists>r a. (r, a) \<in> set h \<and> is_rounded r \<and> (\<forall>n. a \<noteq> Inr (PyNum n)))"

subsection \<open>Assertions about a run of the notebook\<close>

text \<open>
  Every mean a transcript asked for was answered with a number; a transcript has asked
  for a mean.
\<close>

definition means_numeric :: "'n transcript \<Rightarrow> bool" where
  "means_numeric h = (\<forall>r a. (r, a) \<in> set h \<and> is_mean_request r \<longrightarrow> (\<exists>n. a = Inr (PyNum n)))"

definition has_mean :: "'n transcript \<Rightarrow> bool" where
  "has_mean h = (\<exists>r a. (r, a) \<in> set h \<and> is_mean_request r)"

text \<open>The variables of the display parameters hold the literals the cells declared.\<close>

definition landsat_declared :: "'n nb \<Rightarrow> bool" where
  "landsat_declared s =
     (landsat_nat s = landsat_nat_literal \<and> landsat_IR s = landsat_IR_literal \<and>
      vis_ndvi s = vis_ndvi_literal)"

definition sentinel_declared :: "'n nb \<Rightarrow> bool" where
  "sentinel_declared s =
     (sentinel_nat s = sentinel_nat_literal \<and> sentinel_IR s = sentinel_IR_literal)"

text \<open>
  What holds between the cells (\<open>kept\<close>), at every call (\<open>call_ok\<close>) and at every
  exception a cell raises itself (\<open>raise_ok\<close>).
\<close>

definition kept :: "'n transcript \<Rightarrow> 'n nb \<Rightarrow> bool" where
  "kept h s = means_numeric h"

definition call_ok :: "request \<Rightarrow> 'n transcript \<Rightarrow> 'n nb \<Rightarrow> bool" where
  "call_ok r h s = passes_declared r"

definition raise_ok :: "'n transcript \<Rightarrow> error \<Rightarrow> 'n nb \<Rightarrow> bool" where
  "raise_ok h e s = (e = TypeError \<and> not_all_numbers h)"

definition finished_ok :: "'n transcript \<Rightarrow> 'n nb \<Rightarrow> bool" where
  "finished_ok h s = (kept h s \<and> landsat_declared s \<and> sentinel_declared s \<and> has_mean h)"

text \<open>An engine that cannot render a layer.\<close>

definition no_layer_engine :: "nat engine" where
  "no_layer_engine h r =
     (case r of Add_ee_layer m obj v nm \<Rightarrow> Inl (Exception ''no tiles'') | _ \<Rightarrow> Inr (PyNum 1))"

subsection \<open>The table and the yearly layers as functions of the answers\<close>

text \<open>
  The answers of a transcript, in order, and the value of the answer at a position
  (Python's \<^verbatim>\<open>None\<close> where the position holds no value).
\<close>

definition responses :: "'n transcript \<Rightarrow> (error + 'n pyval) list" where
  "responses h = map snd h"

definition answer :: "(error + 'n pyval) list \<Rightarrow> nat \<Rightarrow> 'n pyval" where
  "answer as i =
     (if i < length as then (case as ! i of Inl e \<Rightarrow> PyNone | Inr v \<Rightarrow> v) else PyNone)"

text \<open>
  A run of the notebook that reaches the loop has issued 20 requests before the first
  iteration, and every iteration that finishes issues five: for the mean, the image's
  properties, the photo's date, the layer and the cloud coverage. Counted from 0, the
  mean and the date of the iteration with index \<open>i\<close>, the year 2017 + \<open>i\<close>, are the
  answers 20 + 5 \<open>i\<close> and 22 + 5 \<open>i\<close>. \<open>filled_table as i\<close> is the table the cell before
  the loop builds with the first \<open>i\<close> rows filled from the answers \<open>as\<close>;
  \<open>yearly_layers b as i\<close> are the layers the first \<open>i\<close> iterations put on the yearly map,
  each named by its date and its rounded mean. \<open>yearly_state y\<close> is what the assignments
  at the head of the iteration for the year \<open>y\<close> build, from the area and the dates of the
  second code cell; \<open>asked_years h i\<close> says that, for the first \<open>i\<close> years, the requests
  at those two positions of \<open>h\<close> are the ones for the year's mean and for the date of the
  year's image.
\<close>

definition filled_table :: "(error + 'n pyval) list \<Rightarrow> nat \<Rightarrow> 'n row list" where
  "filled_table as i =
     map (\<lambda>j. if j < i
              then (wine_scores (cell_36 fresh_kernel) ! j)
                     \<lparr>Mean_NDVI := answer as (20 + 5 * j), Photo_Date := answer as (22 + 5 * j)\<rparr>
              else wine_scores (cell_36 fresh_kernel) ! j) [0..<6]"

definition yearly_state :: "int \<Rightarrow> unit nb" where
  "yearly_state y =
     calculate_mean (calculate_ndvi (scale_image (get_image ((cell_4 fresh_kernel)\<lparr>year := y\<rparr>))))"

definition yearly_ndvi :: "int \<Rightarrow> ee_obj" where
  "yearly_ndvi y = ndvi (yearly_state y)"

definition mean_request :: "int \<Rightarrow> request" where
  "mean_request y = GetInfo (Get (mean_ndvi (yearly_state y)) ''B8'')"

definition date_request :: "int \<Rightarrow> request" where
  "date_request y = GetInfo (Get (ImageProps (image_var (yearly_state y))) ''IMAGE_DATE'')"

definition asked_years :: "'n transcript \<Rightarrow> nat \<Rightarrow> bool" where
  "asked_years h i =
     (\<forall>j < i. fst (h ! (20 + 5 * j)) = mean_request (2017 + int j) \<and>
              fst (h ! (22 + 5 * j)) = date_request (2017 + int j))"

definition yearly_layer :: "'n builtins \<Rightarrow> (error + 'n pyval) list \<Rightarrow> nat \<Rightarrow> layer" where
  "yearly_layer b as i =
     \<lparr>ee_object = yearly_ndvi (2017 + int i), vis = properties vis_ndvi_literal,
      layer_name = py_str b (answer as (22 + 5 * i)) @ '' - Mean NDVI: '' @
                   (case answer as (20 + 5 * i) of PyNum n \<Rightarrow> repr b (round2 b n) | _ \<Rightarrow> [])\<rparr>"

definition yearly_layers :: "'n builtins \<Rightarrow> (error + 'n pyval) list \<Rightarrow> nat \<Rightarrow> layer list" where
  "yearly_layers b as i = fold (\<lambda>j. put_layer (yearly_layer b as j)) [0..<i] []"

text \<open>
  What holds of the transcript and the state between the cells of a run: \<open>n\<close> requests
  have been issued; the area and the dates are the ones the second code cell defines;
  the NDVI display parameters are as declared; the table is the one the cell before the
  loop builds; \<open>i\<close> iterations of the loop are done.
\<close>

definition same_place :: "'n nb \<Rightarrow> bool" where
  "same_place s =
     (study_date s = study_date (cell_4 (fresh_kernel :: unit nb)) \<and>
      study_area s = study_area (cell_4 (fresh_kernel :: unit nb)) \<and>
      clip_area s = clip_area (cell_4 (fresh_kernel :: unit nb)))"

definition asked :: "nat \<Rightarrow> 'n transcript \<Rightarrow> 'n nb \<Rightarrow> bool" where
  "asked n h s = (length h = n)"

definition placed :: "nat \<Rightarrow> 'n transcript \<Rightarrow> 'n nb \<Rightarrow> bool" where
  "placed n h s = (length h = n \<and> same_place s)"

definition declared :: "nat \<Rightarrow> 'n transcript \<Rightarrow> 'n nb \<Rightarrow> bool" where
  "declared n h s = (length h = n \<and> same_place s \<and> vis_ndvi s = vis_ndvi_literal)"

definition tabled :: "nat \<Rightarrow> 'n transcript \<Rightarrow> 'n nb \<Rightarrow> bool" where
  "tabled n h s =
     (length h = n \<and> same_place s \<and> vis_ndvi s = vis_ndvi_literal \<and>
      wine_scores s = wine_scores (cell_36 fresh_kernel))"

definition in_loop :: "'n builtins \<Rightarrow> nat \<Rightarrow> 'n transcript \<Rightarrow> 'n nb \<Rightarrow> bool" where
  "in_loop b i h s =
     (length h = 20 + 5 * i \<and> same_place s \<and> vis_ndvi s = vis_ndvi_literal \<and>
      asked_years h i \<and> wine_scores s = filled_table (responses h) i \<and>
      layers (ndvi_map s) = yearly_layers b (responses h) i)"

definition looped :: "'n builtins \<Rightarrow> nat \<Rightarrow> 'n transcript \<Rightarrow> 'n nb \<Rightarrow> bool" where
  "looped b n h s =
     (length h = n \<and> vis_ndvi s = vis_ndvi_literal \<and> asked_years h 6 \<and>
      wine_scores s = filled_table (responses h) 6 \<and>
      layers (ndvi_map s) = yearly_layers b (responses h) 6)"

text \<open>
  An engine that answers every request with its number in the run, counted from 0, and
  one that does so only for the requests that pass the display parameters as declared,
  and answers any other request with an exception.
\<close>

definition numbering_engine :: "nat engine" where
  "numbering_engine h r = Inr (PyNum (length h))"

definition strict_engine :: "nat engine" where
  "strict_engine h r =
     (if passes_declared r then Inr (PyNum (length h)) else Inl (Exception ''not as declared''))"

section \<open>Running programs\<close>

lemma then_prog_assoc:
  "then_prog (then_prog p f) g = then_prog p (\<lambda>s. then_prog (f s) g)"
  by (induction p) auto

lemma for_each_append:
  "for_each (xs @ ys) body s = then_prog (for_each xs body s) (for_each ys body)"
proof (induction xs arbitrary: s)
  case Nil
  then show ?case by simp
next
  case (Cons x xs)
  have "for_each (xs @ ys) body = (\<lambda>s. then_prog (for_each xs body s) (for_each ys body))"
    using Cons.IH by (intro ext)
  then show ?case by (simp add: then_prog_assoc)
qed

text \<open>Only the last request of a run can have failed, and its exception is the outcome.\<close>

lemma exec_from_failure_last:
  "i < length (fst (exec_from x p h)) \<Longrightarrow> snd (fst (exec_from x p h) ! i) = Inl e \<Longrightarrow>
     Suc i = length (fst (exec_from x p h)) \<and> (\<exists>s. snd (exec_from x p h) = Failed e s)"
proof (induction p arbitrary: i h)
  case (Call r s k)
  show ?case
  proof (cases "x h r")
    case (Inl e')
    with Call.prems show ?thesis by simp
  next
    case (Inr v)
    let ?h = "h @ [(r, Inr v)]"
    from Call.prems Inr obtain j where j: "i = Suc j" by (cases i) auto
    with Call.prems Inr have "j < length (fst (exec_from x (k v) ?h))"
      "snd (fst (exec_from x (k v) ?h) ! j) = Inl e"
      by auto
    from Call.IH[OF rangeI this] j Inr show ?thesis by simp
  qed
qed simp_all

lemma exec_failure_last:
  "i < length (fst (exec x p)) \<Longrightarrow> snd (fst (exec x p) ! i) = Inl e \<Longrightarrow>
     Suc i = length (fst (exec x p)) \<and> (\<exists>s. snd (exec x p) = Failed e s)"
  unfolding exec_def by (rule exec_from_failure_last)

text \<open>Every answer of a transcript is what the engine said, after some transcript.\<close>

lemma exec_from_answers: "(r, a) \<in> set (fst (exec_from x p h)) \<Longrightarrow> \<exists>h'. a = x h' r"
proof (induction p arbitrary: h)
  case (Call r' s k)
  show ?case
  proof (cases "x h r'")
    case (Inl e)
    with Call.prems have "a = x h r" by auto
    then show ?thesis by blast
  next
    case (Inr v)
    show ?thesis
    proof (cases "(r, a) = (r', Inr v)")
      case True
      with Inr have "a = x h r" by auto
      then show ?thesis by blast
    next
      case False
      with Call.prems Inr have "(r, a) \<in> set (fst (exec_from x (k v) (h @ [(r', Inr v)])))"
        by auto
      from Call.IH[OF rangeI this] show ?thesis .
    qed
  qed
qed simp_all

lemma exec_answers: "(r, a) \<in> set (fst (exec x p)) \<Longrightarrow> \<exists>h. a = x h r"
  unfolding exec_def by (rule exec_from_answers)

text \<open>Two runs of a program that get the same answers, one after the other, are the same run.\<close>

lemma exec_from_same_responses:
  "map snd (fst (exec_from x1 p h1)) = map snd (fst (exec_from x2 p h2)) \<Longrightarrow>
     exec_from x1 p h1 = exec_from x2 p h2"
proof (induction p arbitrary: h1 h2)
  case (Call r s k)
  show ?case
  proof (cases "x1 h1 r")
    case l1: (Inl e1)
    with Call.prems show ?thesis by (cases "x2 h2 r") auto
  next
    case r1: (Inr v1)
    show ?thesis
    proof (cases "x2 h2 r")
      case (Inl e2)
      with Call.prems r1 show ?thesis by auto
    next
      case r2: (Inr v2)
      with Call.prems r1 have v: "v2 = v1"
        and t: "map snd (fst (exec_from x1 (k v1) (h1 @ [(r, Inr v1)]))) =
                map snd (fst (exec_from x2 (k v1) (h2 @ [(r, Inr v1)])))"
        by auto
      from Call.IH[OF rangeI t] r1 r2 v show ?thesis by simp
    qed
  qed
qed simp_all

text \<open>The answer at a position is what the engine said after the transcript up to there.\<close>

lemma exec_from_nth:
  "i < length (fst (exec_from x p h)) \<Longrightarrow>
     snd (fst (exec_from x p h) ! i) =
       x (h @ take i (fst (exec_from x p h))) (fst (fst (exec_from x p h) ! i))"
proof (induction p arbitrary: i h)
  case (Call r s k)
  show ?case
  proof (cases "x h r")
    case (Inl e)
    with Call.prems show ?thesis by simp
  next
    case (Inr v)
    show ?thesis
    proof (cases i)
      case 0
      with Inr show ?thesis by simp
    next
      case (Suc j)
      with Call.prems Inr have "j < length (fst (exec_from x (k v) (h @ [(r, Inr v)])))"
        by simp
      from Call.IH[OF rangeI this] Suc Inr show ?thesis by simp
    qed
  qed
qed simp_all

subsection \<open>Rules for \<open>wp\<close>\<close>

lemma wp_then:
  "wp (then_prog p f) h C Q E = wp p h C (\<lambda>h' s. wp (f s) h' C Q E) E"
  by (induction p arbitrary: h) auto

lemma wp_mono:
  assumes "wp p h C Q E"
    and "\<And>r h s. C r h s \<Longrightarrow> C' r h s"
    and "\<And>h s. Q h s \<Longrightarrow> Q' h s"
    and "\<And>h e s. E h e s \<Longrightarrow> E' h e s"
  shows "wp p h C' Q' E'"
  using assms by (induction p arbitrary: h) auto

lemma wp_seq:
  assumes "wp p h C P E" and "\<And>h s. P h s \<Longrightarrow> wp (f s) h C Q E"
  shows "wp (then_prog p f) h C Q E"
proof -
  have "wp p h C (\<lambda>h' s'. wp (f s') h' C Q E) E"
    using assms(1) by (rule wp_mono) (simp_all add: assms(2))
  then show ?thesis by (simp add: wp_then)
qed

lemma for_each_inv:
  assumes "\<And>y h s. y \<in> set ys \<Longrightarrow> I h s \<Longrightarrow> wp (body y s) h C I E"
    and "I h s"
  shows "wp (for_each ys body s) h C I E"
  using assms
proof (induction ys arbitrary: h s)
  case Nil
  then show ?case by simp
next
  case (Cons y ys)
  have step: "wp (body y s) h C I E" using Cons.prems by simp
  have rest: "wp (for_each ys body s') h' C I E" if "I h' s'" for h' s'
    using that Cons.prems(1) by (intro Cons.IH) auto
  show ?case using wp_seq[OF step rest] by simp
qed

lemma for_each_indexed:
  assumes "\<And>i h s. i < length ys \<Longrightarrow> I (k + i) h s \<Longrightarrow> wp (body (ys ! i) s) h C (I (Suc (k + i))) E"
    and "I k h s"
  shows "wp (for_each ys body s) h C (I (k + length ys)) E"
  using assms
proof (induction ys arbitrary: k h s)
  case Nil
  then show ?case by simp
next
  case (Cons y ys)
  have step: "wp (body y s) h C (I (Suc k)) E"
    using Cons.prems(1)[of 0 h s] Cons.prems(2) by simp
  have rest: "wp (for_each ys body s') h' C (I (Suc k + length ys)) E" if "I (Suc k) h' s'" for h' s'
  proof (rule Cons.IH[OF _ that])
    fix i h s
    assume "i < length ys" "I (Suc k + i) h s"
    then show "wp (body (ys ! i) s) h C (I (Suc (Suc k + i))) E"
      using Cons.prems(1)[of "Suc i" h s] by simp
  qed
  show ?case using wp_seq[OF step rest] by simp
qed

text \<open>What \<open>wp\<close> says about a run.\<close>

lemma wp_sound_from:
  assumes "wp p h C Q E"
  shows "case snd (exec_from x p h) of
           Finished s \<Rightarrow> Q (h @ fst (exec_from x p h)) s
         | Failed e s \<Rightarrow>
             E (h @ fst (exec_from x p h)) e s \<or>
             (\<exists>r. fst (exec_from x p h) \<noteq> [] \<and> last (fst (exec_from x p h)) = (r, Inl e) \<and>
                  C r (h @ butlast (fst (exec_from x p h))) s)"
  using assms
proof (induction p arbitrary: h)
  case (Call r s k)
  show ?case
  proof (cases "x h r")
    case (Inl e)
    with Call.prems show ?thesis by simp
  next
    case (Inr v)
    from Call.prems have "wp (k v) (h @ [(r, Inr v)]) C Q E" by simp
    from Call.IH[OF rangeI this] Inr show ?thesis
      by (auto split: outcome.splits)
  qed
qed simp_all

lemma wp_sound:
  assumes "wp p [] C Q E"
  shows "case snd (exec x p) of
           Finished s \<Rightarrow> Q (fst (exec x p)) s
         | Failed e s \<Rightarrow>
             E (fst (exec x p)) e s \<or>
             (\<exists>r. fst (exec x p) \<noteq> [] \<and> last (fst (exec x p)) = (r, Inl e) \<and>
                  C r (butlast (fst (exec x p))) s)"
  using wp_sound_from[OF assms, of x] unfolding exec_def by (simp split: outcome.splits)

lemma wp_calls_from:
  assumes "wp p h C Q E" and "(r, a) \<in> set (fst (exec_from x p h))"
  shows "\<exists>h' s. C r h' s"
  using assms
proof (induction p arbitrary: h)
  case (Call r' s k)
  show ?case
  proof (cases "x h r'")
    case (Inl e)
    with Call.prems show ?thesis by auto
  next
    case (Inr v)
    show ?thesis
    proof (cases "r = r'")
      case True
      with Call.prems show ?thesis by auto
    next
      case False
      with Call.prems Inr have "(r, a) \<in> set (fst (exec_from x (k v) (h @ [(r', Inr v)])))"
        by auto
      moreover from Call.prems have "wp (k v) (h @ [(r', Inr v)]) C Q E" by simp
      ultimately show ?thesis using Call.IH[OF rangeI] by blast
    qed
  qed
qed simp_all

lemma wp_calls:
  assumes "wp p [] C Q E" and "(r, a) \<in> set (fst (exec x p))"
  shows "\<exists>h' s. C r h' s"
  using wp_calls_from[OF assms(1), of r a x] assms(2) unfolding exec_def by simp

subsection \<open>Assertions about transcripts\<close>

lemma means_numeric_simps [simp]:
  "means_numeric []"
  "means_numeric ((r, a) # t) =
     ((is_mean_request r \<longrightarrow> (\<exists>n. a = Inr (PyNum n))) \<and> means_numeric t)"
  "means_numeric (h @ t) = (means_numeric h \<and> means_numeric t)"
  by (auto simp: means_numeric_def)

lemma has_mean_simps [simp]:
  "\<not> has_mean []"
  "has_mean ((r, a) # t) = (is_mean_request r \<or> has_mean t)"
  "has_mean (h @ t) = (has_mean h \<or> has_mean t)"
  by (auto simp: has_mean_def)

lemma not_all_numbers_simps [simp]:
  "\<not> not_all_numbers []"
  "not_all_numbers ((r, a) # t) =
     ((is_rounded r \<and> (\<forall>n. a \<noteq> Inr (PyNum n))) \<or> not_all_numbers t)"
  "not_all_numbers (h @ t) = (not_all_numbers h \<or> not_all_numbers t)"
  by (auto simp: not_all_numbers_def)

section \<open>The NDVI rasters\<close>

lemma map_of_bands_map:
  "map_of (map (\<lambda>(n, g). (n, F g)) bs) k = map_option F (map_of bs k)"
  by (induction bs) auto

lemma band_op_const:
  "band_op f bs [(m, h)] = Some (map (\<lambda>(n, g). (n, pointwise f g h)) bs)"
proof (cases bs)
  case Nil
  then show ?thesis by (simp add: band_op_def)
next
  case (Cons a bs')
  then show ?thesis
    by (cases bs') (auto simp: band_op_def split: prod.splits)
qed

lemma band_op_single:
  "band_op f [(n, g)] [(m, h)] = Some [(n, pointwise f g h)]"
  by (simp add: band_op_def)

lemma plain_band_names:
  "plain_name ''B8''" "plain_name ''B4''" "plain_name ''SR_B5''" "plain_name ''SR_B4''"
  by (simp_all add: plain_name_def)

text \<open>The expression all three NDVI computations of the notebook build.\<close>

lemma eval_normalized_difference:
  assumes "eval ar src e = Some bs" "map_of bs n1 = Some nir" "map_of bs n2 = Some rd"
    "plain_name n1" "plain_name n2"
  shows "eval ar src (Divide (Subtract (Select e n1) (Select e n2))
                             (Add (Select e n1) (Select e n2)))
         = Some [(n1, pointwise (px_divide ar) (pointwise (px_subtract ar) nir rd)
                        (pointwise (px_add ar) nir rd))]"
  using assms by (simp add: arith_def band_op_single)

lemma eval_divide_constant:
  assumes "eval ar src e = Some bs"
  shows "eval ar src (Divide e (Constant c)) =
         Some (map (\<lambda>(n, g). (n, pointwise (px_divide ar) g (\<lambda>p. Some (px_constant ar c)))) bs)"
  using assms by (simp add: arith_def band_op_const)

lemma pointwise_is_ndvi:
  "is_ndvi_of ar (pointwise (px_divide ar) (pointwise (px_subtract ar) nir rd)
                    (pointwise (px_add ar) nir rd)) nir rd"
  by (auto simp: is_ndvi_of_def pointwise_def)

lemma pointwise_is_exact_ndvi:
  "is_exact_ndvi_of (pointwise exact_divide (pointwise (-) nir rd) (pointwise (+) nir rd)) nir rd"
  by (auto simp: is_exact_ndvi_of_def pointwise_def exact_divide_def)

lemma exact_arithmetic_simps [simp]:
  "px_add exact_arithmetic = (+)" "px_subtract exact_arithmetic = (-)"
  "px_multiply exact_arithmetic = (*)" "px_divide exact_arithmetic = exact_divide"
  "px_constant exact_arithmetic c = c"
  by (simp_all add: exact_arithmetic_def)

text \<open>
  Claim C1. Every NDVI the notebook computes is the formula (NIR - Red) / (NIR + Red)
  applied pixel by pixel to the two selected bands. Whatever image the engine holds for
  the input (the clipped Landsat image, the scaled Sentinel image, the scaled image of
  a year) and whatever its arithmetic, if the image has the two bands, the Landsat
  layer, the Sentinel layer and the yearly NDVI each denote one band whose raster is
  \<open>subtract(NIR, Red)\<close> divided by \<open>add(NIR, Red)\<close>; that raster has, at every pixel
  where both bands are present, the value the engine's arithmetic gives the formula;
  and in exact arithmetic it has the value of the formula at every pixel where the
  formula is defined.
\<close>

theorem ndvi_layers_follow_formula:
  "(eval ar src (image_2022 s) = Some bs \<and> map_of bs ''SR_B5'' = Some nir \<and>
    map_of bs ''SR_B4'' = Some rd \<longrightarrow>
      eval ar src (landsat_ndvi (cell_16 s)) =
        Some [(''Landsat NDVI'',
               pointwise (px_divide ar) (pointwise (px_subtract ar) nir rd)
                 (pointwise (px_add ar) nir rd))])
   \<and>
   (eval ar src (sentinel_2022_data s) = Some bs \<and> map_of bs ''B8'' = Some nir \<and>
    map_of bs ''B4'' = Some rd \<longrightarrow>
      eval ar src (sentinel_ndvi (cell_28 s)) =
        Some [(''Sentinel NDVI'',
               pointwise (px_divide ar) (pointwise (px_subtract ar) nir rd)
                 (pointwise (px_add ar) nir rd))])
   \<and>
   (eval ar src (image_data s) = Some bs \<and> map_of bs ''B8'' = Some nir \<and>
    map_of bs ''B4'' = Some rd \<longrightarrow>
      eval ar src (ndvi (calculate_ndvi s)) =
        Some [(''B8'', pointwise (px_divide ar) (pointwise (px_subtract ar) nir rd)
                         (pointwise (px_add ar) nir rd))])
   \<and>
   is_ndvi_of ar (pointwise (px_divide ar) (pointwise (px_subtract ar) nir rd)
                    (pointwise (px_add ar) nir rd)) nir rd
   \<and>
   is_exact_ndvi_of (pointwise (px_divide exact_arithmetic)
                       (pointwise (px_subtract exact_arithmetic) n r)
                       (pointwise (px_add exact_arithmetic) n r)) n r"
  by (simp add: cell_16_def cell_28_def calculate_ndvi_def Let_def arith_def band_op_single
      plain_band_names pointwise_is_ndvi pointwise_is_exact_ndvi)

text \<open>
  With \<open>sample_src\<close>, where every image has the four bands at the values 3 (near
  infrared) and 1 (red), and exact arithmetic, the three NDVI rasters are 1/2 at every
  pixel.
\<close>

theorem ndvi_layers_follow_formula_witness:
  "eval exact_arithmetic sample_src (landsat_ndvi (cell_16 sample_kernel)) =
     Some [(''Landsat NDVI'',
            pointwise exact_divide (pointwise (-) (\<lambda>p. Some 3) (\<lambda>p. Some 1))
                                   (pointwise (+) (\<lambda>p. Some 3) (\<lambda>p. Some 1)))]
   \<and> eval exact_arithmetic sample_src (sentinel_ndvi (cell_28 sample_kernel)) =
     Some [(''Sentinel NDVI'',
            pointwise exact_divide (pointwise (-) (\<lambda>p. Some 3) (\<lambda>p. Some 1))
                                   (pointwise (+) (\<lambda>p. Some 3) (\<lambda>p. Some 1)))]
   \<and> eval exact_arithmetic sample_src (ndvi (calculate_ndvi sample_kernel)) =
     Some [(''B8'',
            pointwise exact_divide (pointwise (-) (\<lambda>p. Some 3) (\<lambda>p. Some 1))
                                   (pointwise (+) (\<lambda>p. Some 3) (\<lambda>p. Some 1)))]
   \<and> pointwise exact_divide (pointwise (-) (\<lambda>p. Some 3) (\<lambda>p. Some 1))
                            (pointwise (+) (\<lambda>p. Some 3) (\<lambda>p. Some 1)) (0::nat) = Some (1 / 2)"
proof -
  have i: "eval exact_arithmetic sample_src (image_2022 sample_kernel) = Some sample_bands"
    "eval exact_arithmetic sample_src (sentinel_2022_data sample_kernel) = Some sample_bands"
    "eval exact_arithmetic sample_src (image_data sample_kernel) = Some sample_bands"
    by (simp_all add: sample_kernel_def fresh_kernel_def sample_src_def)
  have m: "map_of sample_bands ''SR_B5'' = Some (\<lambda>p. Some 3)"
    "map_of sample_bands ''SR_B4'' = Some (\<lambda>p. Some 1)"
    "map_of sample_bands ''B8'' = Some (\<lambda>p. Some 3)"
    "map_of sample_bands ''B4'' = Some (\<lambda>p. Some 1)"
    by (simp_all add: sample_bands_def)
  note t = ndvi_layers_follow_formula[of exact_arithmetic sample_src sample_kernel sample_bands
      "\<lambda>p. Some 3" "\<lambda>p. Some 1" "\<lambda>p::nat. Some 3" "\<lambda>p. Some 1"]
  have "is_exact_ndvi_of
          (pointwise exact_divide (pointwise (-) (\<lambda>p::nat. Some 3) (\<lambda>p. Some 1))
             (pointwise (+) (\<lambda>p. Some 3) (\<lambda>p. Some 1))) (\<lambda>p. Some 3) (\<lambda>p. Some 1)"
    using t by simp
  then have "pointwise exact_divide (pointwise (-) (\<lambda>p. Some 3) (\<lambda>p. Some 1))
      (pointwise (+) (\<lambda>p. Some 3) (\<lambda>p. Some 1)) (0::nat) = Some ((3 - 1) / (3 + 1))"
    unfolding is_exact_ndvi_of_def by simp
  moreover have "(3 - 1) / (3 + 1) = (1::real) / 2" by simp
  ultimately show ?thesis using i m t by simp
qed

subsection \<open>The division by 10000\<close>

text \<open>Rounding a number whose binary exponent is known.\<close>

lemma float_round_eq:
  assumes "2 powi k \<le> \<bar>x\<bar>" "\<bar>x\<bar> < 2 powi (k + 1)"
  shows "float_round p x =
           of_int (round_half_even (x / 2 powi (k - int p + 1))) * 2 powi (k - int p + 1)"
proof -
  have pos: "0 < \<bar>x\<bar>"
    using assms(1) by (smt (verit) zero_less_power_int)
  have "(2::real) powr (of_int k) = 2 powi k" "(2::real) powr (of_int (k + 1)) = 2 powi (k + 1)"
    using powr_real_of_int'[of "2::real" k] powr_real_of_int'[of "2::real" "k + 1"] by simp_all
  then have "\<lfloor>log 2 \<bar>x\<bar>\<rfloor> = k"
    using assms pos by (subst floor_log_eq_powr_iff) auto
  then show ?thesis
    using pos by (simp add: float_round_def)
qed

text \<open>
  The roundings on the way from the stored reflectances 3000 and 1000 to the two NDVI
  values, in double and in single precision.
\<close>

lemma double_roundings:
  "float_round 53 10000 = 10000"
  "float_round 53 (3 / 10) = 5404319552844595 / 18014398509481984"
  "float_round 53 (1 / 10) = 3602879701896397 / 36028797018963968"
  "float_round 53 (7205759403792793 / 36028797018963968) =
     7205759403792793 / 36028797018963968"
  "float_round 53 (14411518807585587 / 36028797018963968) =
     3602879701896397 / 9007199254740992"
  "float_round 53 (7205759403792793 / 14411518807585588) =
     9007199254740991 / 18014398509481984"
  "float_round 53 2000 = 2000"
  "float_round 53 4000 = 4000"
  "float_round 53 (1 / 2) = 1 / 2"
  by (subst float_round_eq[where k = 13], simp_all add: round_half_even_def)
     (subst float_round_eq[where k = "- 2"], simp_all add: round_half_even_def,
      subst float_round_eq[where k = "- 4"], simp_all add: round_half_even_def,
      subst float_round_eq[where k = "- 3"], simp_all add: round_half_even_def,
      subst float_round_eq[where k = "- 2"], simp_all add: round_half_even_def,
      subst float_round_eq[where k = "- 2"], simp_all add: round_half_even_def,
      subst float_round_eq[where k = 10], simp_all add: round_half_even_def,
      subst float_round_eq[where k = 11], simp_all add: round_half_even_def,
      subst float_round_eq[where k = "- 1"], simp_all add: round_half_even_def)

lemma single_roundings:
  "float_round 24 10000 = 10000"
  "float_round 24 (3 / 10) = 5033165 / 16777216"
  "float_round 24 (1 / 10) = 13421773 / 134217728"
  "float_round 24 (26843547 / 134217728) = 6710887 / 33554432"
  "float_round 24 (53687093 / 134217728) = 13421773 / 33554432"
  "float_round 24 (6710887 / 13421773) = 8388609 / 16777216"
  "float_round 24 2000 = 2000"
  "float_round 24 4000 = 4000"
  "float_round 24 (1 / 2) = 1 / 2"
  by (subst float_round_eq[where k = 13], simp_all add: round_half_even_def)
     (subst float_round_eq[where k = "- 2"], simp_all add: round_half_even_def,
      subst float_round_eq[where k = "- 4"], simp_all add: round_half_even_def,
      subst float_round_eq[where k = "- 3"], simp_all add: round_half_even_def,
      subst float_round_eq[where k = "- 2"], simp_all add: round_half_even_def,
      subst float_round_eq[where k = "- 1"], simp_all add: round_half_even_def,
      subst float_round_eq[where k = 10], simp_all add: round_half_even_def,
      subst float_round_eq[where k = 11], simp_all add: round_half_even_def,
      subst float_round_eq[where k = "- 1"], simp_all add: round_half_even_def)

lemmas ndvi_of_sample_defs =
  value_at_def calculate_ndvi_def scale_image_def Let_def sample_kernel_def fresh_kernel_def
  vineyard_src_def vineyard_bands_def arith_def band_op_def pointwise_def plain_name_def
  float_arithmetic_def

text \<open>
  Claim C8 as stated says that the scaling step has no effect on the computed NDVI
  raster. Counterexample: a pixel whose stored reflectances are 3000 (near infrared)
  and 1000 (red), so that their sum is not 0. In double precision the NDVI computed
  from the bands divided by 10000, as the loop computes it, is
  0.49999999999999994 (that is 9007199254740991 / 2^54), and the NDVI the same
  expression gives on the undivided bands is 0.5. In single precision the two values
  are 0.50000006 (that is 8388609 / 2^24) and 0.5.
\<close>

theorem scaling_changes_computed_ndvi_counterexample:
  "(3000::real) + 1000 \<noteq> 0
   \<and> value_at (eval (float_arithmetic 53) vineyard_src
        (ndvi (calculate_ndvi (scale_image sample_kernel)))) ''B8'' 0 =
       Some (9007199254740991 / 18014398509481984)
   \<and> value_at (eval (float_arithmetic 53) vineyard_src
        (ndvi (calculate_ndvi (sample_kernel\<lparr>image_data := image_var sample_kernel\<rparr>)))) ''B8'' 0 =
       Some (1 / 2)
   \<and> value_at (eval (float_arithmetic 24) vineyard_src
        (ndvi (calculate_ndvi (scale_image sample_kernel)))) ''B8'' 0 =
       Some (8388609 / 16777216)
   \<and> value_at (eval (float_arithmetic 24) vineyard_src
        (ndvi (calculate_ndvi (sample_kernel\<lparr>image_data := image_var sample_kernel\<rparr>)))) ''B8'' 0 =
       Some (1 / 2)
   \<and> value_at (eval (float_arithmetic 53) vineyard_src
        (ndvi (calculate_ndvi (scale_image sample_kernel)))) ''B8'' 0 \<noteq>
     value_at (eval (float_arithmetic 53) vineyard_src
        (ndvi (calculate_ndvi (sample_kernel\<lparr>image_data := image_var sample_kernel\<rparr>)))) ''B8'' 0
   \<and> value_at (eval (float_arithmetic 24) vineyard_src
        (ndvi (calculate_ndvi (scale_image sample_kernel)))) ''B8'' 0 \<noteq>
     value_at (eval (float_arithmetic 24) vineyard_src
        (ndvi (calculate_ndvi (sample_kernel\<lparr>image_data := image_var sample_kernel\<rparr>)))) ''B8'' 0"
proof -
  have d: "value_at (eval (float_arithmetic 53) vineyard_src
        (ndvi (calculate_ndvi (scale_image sample_kernel)))) ''B8'' 0 =
       Some (9007199254740991 / 18014398509481984)"
    "value_at (eval (float_arithmetic 53) vineyard_src
        (ndvi (calculate_ndvi (sample_kernel\<lparr>image_data := image_var sample_kernel\<rparr>)))) ''B8'' 0 =
       Some (1 / 2)"
    by (simp_all add: ndvi_of_sample_defs double_roundings)
  have s: "value_at (eval (float_arithmetic 24) vineyard_src
        (ndvi (calculate_ndvi (scale_image sample_kernel)))) ''B8'' 0 =
       Some (8388609 / 16777216)"
    "value_at (eval (float_arithmetic 24) vineyard_src
        (ndvi (calculate_ndvi (sample_kernel\<lparr>image_data := image_var sample_kernel\<rparr>)))) ''B8'' 0 =
       Some (1 / 2)"
    by (simp_all add: ndvi_of_sample_defs single_roundings)
  show ?thesis
    unfolding d s by simp
qed

lemma scaled_pixel:
  assumes "nir p = Some a" "rd p = Some c" "a + c \<noteq> 0" "k \<noteq> 0"
  shows "pointwise exact_divide
           (pointwise (-) (pointwise exact_divide nir (\<lambda>p. Some k))
                          (pointwise exact_divide rd (\<lambda>p. Some k)))
           (pointwise (+) (pointwise exact_divide nir (\<lambda>p. Some k))
                          (pointwise exact_divide rd (\<lambda>p. Some k))) p
         = Some ((a - c) / (a + c))"
proof -
  have "a / k + c / k = (a + c) / k" by (simp add: add_divide_distrib)
  moreover have "a / k - c / k = (a - c) / k" by (simp add: diff_divide_distrib)
  moreover have "(a + c) / k \<noteq> 0" using assms by simp
  ultimately show ?thesis using assms
    by (simp add: pointwise_def exact_divide_def)
qed

text \<open>
  Claim C8, as amended. In exact arithmetic, dividing every band by 10000 leaves the
  NDVI unchanged: at every pixel where both bands are present and NIR + Red is not 0,
  the NDVI of the scaled image (what the yearly loop and the Sentinel cells build)
  equals the NDVI the same expression gives on the unscaled image, and both are
  (NIR - Red) / (NIR + Red) of the unscaled bands. (In the engine's floating-point
  arithmetic the two can differ in the last bits, as above.)
\<close>

theorem scaling_leaves_exact_ndvi_unchanged:
  "(eval exact_arithmetic src (image_var s) = Some bs \<and> map_of bs ''B8'' = Some nir \<and>
    map_of bs ''B4'' = Some rd \<longrightarrow>
     (\<exists>f g. eval exact_arithmetic src (ndvi (calculate_ndvi (scale_image s))) =
              Some [(''B8'', f)] \<and>
            eval exact_arithmetic src (ndvi (calculate_ndvi (s\<lparr>image_data := image_var s\<rparr>))) =
              Some [(''B8'', g)] \<and>
            (\<forall>p a c. nir p = Some a \<and> rd p = Some c \<and> a + c \<noteq> 0 \<longrightarrow>
                f p = g p \<and> g p = Some ((a - c) / (a + c)))))
   \<and>
   (eval exact_arithmetic src (sentinel_2022 (cell_21 s)) = Some bs \<and>
    map_of bs ''B8'' = Some nir \<and> map_of bs ''B4'' = Some rd \<longrightarrow>
     (\<exists>f g. eval exact_arithmetic src (sentinel_ndvi (cell_28 (cell_21 s))) =
              Some [(''Sentinel NDVI'', f)] \<and>
            eval exact_arithmetic src (sentinel_ndvi
                       (cell_28 ((cell_21 s)\<lparr>sentinel_2022_data := sentinel_2022 (cell_21 s)\<rparr>))) =
              Some [(''Sentinel NDVI'', g)] \<and>
            (\<forall>p a c. nir p = Some a \<and> rd p = Some c \<and> a + c \<noteq> 0 \<longrightarrow>
                f p = g p \<and> g p = Some ((a - c) / (a + c)))))"
proof -
  let ?k = "\<lambda>g. pointwise exact_divide g (\<lambda>p. Some (10000::real))"
  let ?bs = "map (\<lambda>(n, g). (n, ?k g)) bs"
  let ?f = "pointwise exact_divide (pointwise (-) (?k nir) (?k rd)) (pointwise (+) (?k nir) (?k rd))"
  let ?g = "pointwise exact_divide (pointwise (-) nir rd) (pointwise (+) nir rd)"
  let ?ev = "eval exact_arithmetic src"
  have px: "?f p = ?g p \<and> ?g p = Some ((a - c) / (a + c))"
    if "nir p = Some a" "rd p = Some c" "a + c \<noteq> 0" for p a c
    using that scaled_pixel[of nir p a rd c 10000] pointwise_is_exact_ndvi[of nir rd]
    by (simp add: is_exact_ndvi_of_def)
  have both: "?ev (Divide (Subtract (Select (Divide e (Constant 10000)) ''B8'')
                                    (Select (Divide e (Constant 10000)) ''B4''))
                          (Add (Select (Divide e (Constant 10000)) ''B8'')
                               (Select (Divide e (Constant 10000)) ''B4''))) =
                Some [(''B8'', ?f)] \<and>
              ?ev (Divide (Subtract (Select e ''B8'') (Select e ''B4''))
                          (Add (Select e ''B8'') (Select e ''B4''))) = Some [(''B8'', ?g)]"
    if e: "?ev e = Some bs" and n: "map_of bs ''B8'' = Some nir" and r: "map_of bs ''B4'' = Some rd"
    for e
  proof -
    have sc: "?ev (Divide e (Constant 10000)) = Some ?bs"
      using eval_divide_constant[OF e, of 10000] by simp
    have m: "map_of ?bs ''B8'' = Some (?k nir)" "map_of ?bs ''B4'' = Some (?k rd)"
      using n r by (simp_all add: map_of_bands_map)
    show ?thesis
      using eval_normalized_difference[OF sc m plain_band_names(1,2)]
        eval_normalized_difference[OF e n r plain_band_names(1,2)]
      by simp
  qed
  have loop: "\<exists>f g. ?ev (ndvi (calculate_ndvi (scale_image s))) = Some [(''B8'', f)] \<and>
            ?ev (ndvi (calculate_ndvi (s\<lparr>image_data := image_var s\<rparr>))) =
              Some [(''B8'', g)] \<and>
            (\<forall>p a c. nir p = Some a \<and> rd p = Some c \<and> a + c \<noteq> 0 \<longrightarrow>
                f p = g p \<and> g p = Some ((a - c) / (a + c)))"
    if "?ev (image_var s) = Some bs" "map_of bs ''B8'' = Some nir" "map_of bs ''B4'' = Some rd"
  proof (intro exI conjI)
    show "?ev (ndvi (calculate_ndvi (scale_image s))) = Some [(''B8'', ?f)]"
      using both[OF that] by (simp add: calculate_ndvi_def scale_image_def Let_def)
    show "?ev (ndvi (calculate_ndvi (s\<lparr>image_data := image_var s\<rparr>))) = Some [(''B8'', ?g)]"
      using both[OF that] by (simp add: calculate_ndvi_def Let_def)
    show "\<forall>p a c. nir p = Some a \<and> rd p = Some c \<and> a + c \<noteq> 0 \<longrightarrow>
            ?f p = ?g p \<and> ?g p = Some ((a - c) / (a + c))"
      using px by blast
  qed
  have rn: "?ev (Rename e n) = Some [(n, f)]" if "?ev e = Some [(m, f)]" for e n m f
    using that by simp
  have sent: "\<exists>f g. ?ev (sentinel_ndvi (cell_28 (cell_21 s))) = Some [(''Sentinel NDVI'', f)] \<and>
            ?ev (sentinel_ndvi
                       (cell_28 ((cell_21 s)\<lparr>sentinel_2022_data := sentinel_2022 (cell_21 s)\<rparr>))) =
              Some [(''Sentinel NDVI'', g)] \<and>
            (\<forall>p a c. nir p = Some a \<and> rd p = Some c \<and> a + c \<noteq> 0 \<longrightarrow>
                f p = g p \<and> g p = Some ((a - c) / (a + c)))"
    if h: "?ev (sentinel_2022 (cell_21 s)) = Some bs" "map_of bs ''B8'' = Some nir"
      "map_of bs ''B4'' = Some rd"
  proof (intro exI conjI)
    have d: "sentinel_2022_data (cell_21 s) = Divide (sentinel_2022 (cell_21 s)) (Constant 10000)"
      by (simp add: cell_21_def Let_def)
    show "?ev (sentinel_ndvi (cell_28 (cell_21 s))) = Some [(''Sentinel NDVI'', ?f)]"
      using rn[OF conjunct1[OF both[OF h]]] d by (simp add: cell_28_def Let_def del: eval.simps)
    show "?ev (sentinel_ndvi
                  (cell_28 ((cell_21 s)\<lparr>sentinel_2022_data := sentinel_2022 (cell_21 s)\<rparr>))) =
          Some [(''Sentinel NDVI'', ?g)]"
      using rn[OF conjunct2[OF both[OF h]]] by (simp add: cell_28_def Let_def del: eval.simps)
    show "\<forall>p a c. nir p = Some a \<and> rd p = Some c \<and> a + c \<noteq> 0 \<longrightarrow>
            ?f p = ?g p \<and> ?g p = Some ((a - c) / (a + c))"
      using px by blast
  qed
  show ?thesis using loop sent by blast
qed

text \<open>
  With \<open>sample_src\<close> the unscaled bands are 3 and 1 everywhere, their sum is not 0, and
  in exact arithmetic both NDVI rasters, with and without the division by 10000, are
  1/2 at pixel 0.
\<close>

theorem scaling_leaves_exact_ndvi_unchanged_witness:
  "\<exists>f g. eval exact_arithmetic sample_src (ndvi (calculate_ndvi (scale_image sample_kernel))) =
           Some [(''B8'', f)] \<and>
         eval exact_arithmetic sample_src
           (ndvi (calculate_ndvi (sample_kernel\<lparr>image_data := image_var sample_kernel\<rparr>)))
           = Some [(''B8'', g)] \<and>
         (3::real) + 1 \<noteq> 0 \<and> f (0::nat) = g 0 \<and> g 0 = Some (1 / 2)"
proof -
  have i: "eval exact_arithmetic sample_src (image_var sample_kernel) = Some sample_bands"
    by (simp add: sample_kernel_def fresh_kernel_def sample_src_def)
  have m: "map_of sample_bands ''B8'' = Some (\<lambda>p. Some 3)"
    "map_of sample_bands ''B4'' = Some (\<lambda>p. Some 1)"
    by (simp_all add: sample_bands_def)
  from scaling_leaves_exact_ndvi_unchanged[of sample_src sample_kernel sample_bands
      "\<lambda>p. Some 3" "\<lambda>p. Some 1"] i m
  obtain f g where fg:
    "eval exact_arithmetic sample_src (ndvi (calculate_ndvi (scale_image sample_kernel))) =
       Some [(''B8'', f)]"
    "eval exact_arithmetic sample_src
       (ndvi (calculate_ndvi (sample_kernel\<lparr>image_data := image_var sample_kernel\<rparr>)))
       = Some [(''B8'', g)]"
    "\<forall>p a c. Some (3::real) = Some a \<and> Some (1::real) = Some c \<and> a + c \<noteq> 0 \<longrightarrow>
        f (p::nat) = g p \<and> g p = Some ((a - c) / (a + c))"
    by blast
  from fg(3) have "f 0 = g 0 \<and> g 0 = Some (((3::real) - 1) / (3 + 1))"
    by (elim allE[where x = 0] allE[where x = "3::real"] allE[where x = "1::real"]) simp
  with fg(1,2) show ?thesis by auto
qed

section \<open>The yearly pipeline\<close>

text \<open>
  Claim C2 as stated says that the yearly pipeline applies the eight operations each as
  a single call to the imagery API. Counterexample: for the year 2017, in the kernel
  where the cell that defines the area and the dates has run, the calls behind the
  value the loop asks for, between the naming of the collection and the reading of the
  mean, are not eight calls, one for each operation: with those two there are fifteen
  calls, five of them for the NDVI step and two for the mean reduction.
\<close>

theorem yearly_pipeline_single_calls_counterexample:
  "map operation_of (butlast (tl (created (Get (mean_ndvi
      (calculate_mean (calculate_ndvi (scale_image (get_image
         ((cell_4 sample_kernel)\<lparr>year := 2017\<rparr>)))))) ''B8'')))) \<noteq>
     [Some Filter_by_date, Some Filter_by_bounds, Some Sort_by_cloud_percentage,
      Some Take_first_result, Some Clip_to_polygon, Some Scale_bands,
      Some Subtract_divide_bands, Some Reduce_region_to_a_mean]
   \<and> length (created (Get (mean_ndvi
        (calculate_mean (calculate_ndvi (scale_image (get_image
           ((cell_4 sample_kernel)\<lparr>year := 2017\<rparr>)))))) ''B8'')) = 15
   \<and> count_list (map operation_of (created (Get (mean_ndvi
        (calculate_mean (calculate_ndvi (scale_image (get_image
           ((cell_4 sample_kernel)\<lparr>year := 2017\<rparr>)))))) ''B8'')))
        (Some Subtract_divide_bands) = 5
   \<and> count_list (map operation_of (created (Get (mean_ndvi
        (calculate_mean (calculate_ndvi (scale_image (get_image
           ((cell_4 sample_kernel)\<lparr>year := 2017\<rparr>)))))) ''B8'')))
        (Some Reduce_region_to_a_mean) = 2"
  by (simp add: calculate_mean_def calculate_ndvi_def scale_image_def get_image_def cell_4_def
      Let_def created_def)

text \<open>
  Claim C2, as amended. For every year, the value the loop asks the engine for is built
  by exactly these fifteen calls of the imagery API, in this order, each on what the
  calls before it returned: the collection is named; then \<open>filterDate\<close>, \<open>filterBounds\<close>,
  \<open>sort\<close> (by the cloud percentage), \<open>first\<close>, \<open>clip\<close> (to the polygon) and \<open>divide\<close>
  (by the constant 10000), one call for each of the first six operations; then the five
  calls of the NDVI step, \<open>select\<close>, \<open>select\<close>, \<open>subtract\<close>, \<open>add\<close>, \<open>divide\<close>; then the
  two calls of the mean reduction, \<open>Reducer.mean\<close> and \<open>reduceRegion\<close>; then \<open>get\<close>,
  which reads the mean out of the reduction's result. So the operations applied between
  the naming of the collection and the reading of the mean are the eight of the
  specification, in its order, and nothing else; and the request the body then issues,
  its first, is \<^verbatim>\<open>getInfo\<close> on that value.
\<close>

theorem yearly_pipeline_calls:
  "clip_area s = Polygon ps \<longrightarrow>
     (let s' = calculate_mean (calculate_ndvi (scale_image (get_image (s\<lparr>year := y\<rparr>))));
          collection = ImageCollection ''COPERNICUS/S2_SR_HARMONIZED'';
          dated = FilterDate collection (str_int y @ drop 4 (fst (study_date s)))
                    (str_int y @ drop 4 (snd (study_date s)));
          bounded = FilterBounds dated (study_area s);
          sorted_by_cloud = Sort bounded ''HIGH_PROBA_CLOUDS_PERCENTAGE'';
          clearest = First sorted_by_cloud;
          clipped = Clip clearest (Polygon ps);
          scaled = Divide clipped (Constant 10000);
          near_infrared = Select scaled ''B8'';
          red_band = Select scaled ''B4'';
          difference = Subtract near_infrared red_band;
          total = Add near_infrared red_band;
          quotient = Divide difference total;
          mean = ReduceRegion quotient Reducer_mean (Polygon ps) 10 1000000000;
          asked_for = Get mean ''B8''
      in
        mean_ndvi s' = mean \<and>
        (\<exists>k. loop_body b y s = Call (GetInfo asked_for) s' k) \<and>
        created asked_for =
          [collection, dated, bounded, sorted_by_cloud, clearest, clipped, scaled,
           near_infrared, red_band, difference, total, quotient, Reducer_mean, mean,
           asked_for] \<and>
        map method_of (created asked_for) =
          [''ImageCollection'', ''filterDate'', ''filterBounds'', ''sort'', ''first'', ''clip'',
           ''divide'', ''select'', ''select'', ''subtract'', ''add'', ''divide'',
           ''Reducer.mean'', ''reduceRegion'', ''get''] \<and>
        map operation_of (created asked_for) =
          [None, Some Filter_by_date, Some Filter_by_bounds, Some Sort_by_cloud_percentage,
           Some Take_first_result, Some Clip_to_polygon, Some Scale_bands,
           Some Subtract_divide_bands, Some Subtract_divide_bands,
           Some Subtract_divide_bands, Some Subtract_divide_bands,
           Some Subtract_divide_bands, Some Reduce_region_to_a_mean,
           Some Reduce_region_to_a_mean, None] \<and>
        remdups_adj (map operation_of (butlast (tl (created asked_for)))) =
          [Some Filter_by_date, Some Filter_by_bounds, Some Sort_by_cloud_percentage,
           Some Take_first_result, Some Clip_to_polygon, Some Scale_bands,
           Some Subtract_divide_bands, Some Reduce_region_to_a_mean])"
  by (simp add: loop_body_def ask_and_record_def calculate_mean_def calculate_ndvi_def
      scale_image_def get_image_def Let_def created_def)

text \<open>
  The year 2017, after the cell that defines the clip polygon: the calls are the fifteen
  above, and the second filters the collection to August 2017.
\<close>

theorem yearly_pipeline_calls_witness:
  "clip_area (cell_4 sample_kernel) =
     Polygon [[(4.647364477, 46.9062950917), (5.1135967769, 46.9062950917),
               (5.1135967769, 47.1193160686), (4.647364477, 47.1193160686),
               (4.647364477, 46.9062950917)]]
   \<and> map method_of (created (Get (mean_ndvi
        (calculate_mean (calculate_ndvi (scale_image (get_image
           ((cell_4 sample_kernel)\<lparr>year := 2017\<rparr>)))))) ''B8'')) =
       [''ImageCollection'', ''filterDate'', ''filterBounds'', ''sort'', ''first'', ''clip'',
        ''divide'', ''select'', ''select'', ''subtract'', ''add'', ''divide'',
        ''Reducer.mean'', ''reduceRegion'', ''get'']
   \<and> created (Get (mean_ndvi
        (calculate_mean (calculate_ndvi (scale_image (get_image
           ((cell_4 sample_kernel)\<lparr>year := 2017\<rparr>)))))) ''B8'') ! 1 =
       FilterDate (ImageCollection ''COPERNICUS/S2_SR_HARMONIZED'') ''2017-08-01'' ''2017-08-31''"
proof -
  have c: "clip_area (cell_4 sample_kernel) =
     Polygon [[(4.647364477, 46.9062950917), (5.1135967769, 46.9062950917),
               (5.1135967769, 47.1193160686), (4.647364477, 47.1193160686),
               (4.647364477, 46.9062950917)]]"
    by (simp add: cell_4_def Let_def)
  have d: "study_date (cell_4 sample_kernel) = (''2022-08-01'', ''2022-08-31'')"
    by (simp add: cell_4_def Let_def)
  have y: "str_int 2017 = ''2017''"
    by (simp add: str_int_def str_nat.simps)
  from yearly_pipeline_calls[of "cell_4 sample_kernel" _ 2017 sample_builtins] c d y
  show ?thesis
    by (simp add: Let_def)
qed

section \<open>The Landsat scale factors\<close>

lemma cell_18_requests:
  assumes "landsat_ndvi s = landsat_ndvi s'" "vis_ndvi s = vis_ndvi s'"
  shows "fst (exec x (cell_18 s)) = fst (exec x (cell_18 s'))"
  using assms
  by (simp add: exec_def cell_18_def add_ee_layer_def colorbar_of_vis_ndvi_def
      add_colorbar_branca_def getitem_def split: sum.splits option.splits)

text \<open>
  Claim C9. The Landsat NDVI is built from the bands \<^verbatim>\<open>SR_B5\<close> and \<^verbatim>\<open>SR_B4\<close> of
  \<^verbatim>\<open>image_2022\<close>, the clipped image as the collection gives it, and not from
  \<^verbatim>\<open>landsat_8_data_2022\<close>. So it is the same object whether the cell that applies the
  scale factors has run or not, and whatever that variable holds; and the calls that
  put it on the map are the same too.
\<close>

theorem landsat_ndvi_ignores_scale_factors:
  "landsat_ndvi (cell_16 s) =
     Rename (Divide (Subtract (Select (image_2022 s) ''SR_B5'') (Select (image_2022 s) ''SR_B4''))
                    (Add (Select (image_2022 s) ''SR_B5'') (Select (image_2022 s) ''SR_B4'')))
       ''Landsat NDVI''
   \<and> landsat_ndvi (cell_16 (cell_9 s)) = landsat_ndvi (cell_16 s)
   \<and> landsat_ndvi (cell_16 (s\<lparr>landsat_8_data_2022 := d\<rparr>)) = landsat_ndvi (cell_16 s)
   \<and> fst (exec x (cell_18 (cell_16 (cell_9 s)))) = fst (exec x (cell_18 (cell_16 s)))
   \<and> fst (exec x (cell_18 (cell_16 (s\<lparr>landsat_8_data_2022 := d\<rparr>)))) =
       fst (exec x (cell_18 (cell_16 s)))"
proof -
  have obj: "landsat_ndvi (cell_16 (s\<lparr>landsat_8_data_2022 := d'\<rparr>)) = landsat_ndvi (cell_16 s)"
    for d'
    by (simp add: cell_16_def Let_def)
  have vis: "vis_ndvi (cell_16 (s\<lparr>landsat_8_data_2022 := d'\<rparr>)) = vis_ndvi (cell_16 s)" for d'
    by (simp add: cell_16_def Let_def)
  have run: "fst (exec x (cell_18 (cell_16 (s\<lparr>landsat_8_data_2022 := d'\<rparr>)))) =
             fst (exec x (cell_18 (cell_16 s)))" for d'
    using cell_18_requests[OF obj vis] .
  show ?thesis
    using obj run by (simp add: cell_9_def) (simp add: cell_16_def Let_def)
qed

section \<open>The table of wine scores\<close>

lemma loc_set_length [simp]:
  "length (loc_set_Mean_NDVI y v t) = length t" "length (loc_set_Photo_Date y v t) = length t"
  by (simp_all add: loc_set_Mean_NDVI_def loc_set_Photo_Date_def)

lemma loc_set_Year [simp]:
  "map Year (loc_set_Mean_NDVI y v t) = map Year t"
  "map Year (loc_set_Photo_Date y v t) = map Year t"
  by (simp_all add: loc_set_Mean_NDVI_def loc_set_Photo_Date_def)

lemma loc_set_Wine_Score [simp]:
  "map Wine_Score (loc_set_Mean_NDVI y v t) = map Wine_Score t"
  "map Wine_Score (loc_set_Photo_Date y v t) = map Wine_Score t"
  by (simp_all add: loc_set_Mean_NDVI_def loc_set_Photo_Date_def)

lemma loc_set_other_rows:
  assumes "i < length t" "Year (t ! i) \<noteq> y"
  shows "loc_set_Mean_NDVI y v t ! i = t ! i" "loc_set_Photo_Date y v t ! i = t ! i"
  using assms by (simp_all add: loc_set_Mean_NDVI_def loc_set_Photo_Date_def)

text \<open>The assignments at the head of the loop body leave the table alone.\<close>

lemma build_keeps_table:
  "wine_scores (calculate_mean (calculate_ndvi (scale_image (get_image (s\<lparr>year := y\<rparr>))))) =
     wine_scores s"
  "year (calculate_mean (calculate_ndvi (scale_image (get_image (s\<lparr>year := y\<rparr>))))) = y"
  by (simp_all add: calculate_mean_def calculate_ndvi_def scale_image_def get_image_def Let_def)

lemma ask_and_record_table:
  "wp (ask_and_record b s0) h (\<lambda>r h. table_step s0) (\<lambda>h. table_step s0) (\<lambda>h e. table_step s0)"
  by (auto simp: ask_and_record_def table_step_def py_round_def add_ee_layer_def print_def
      Let_def split: pyval.split)

lemma wp_state:
  assumes "wp p [] (\<lambda>r h. P) (\<lambda>h. P) (\<lambda>h e. P)"
  shows "P (state_of (snd (exec x p)))"
  using wp_sound[OF assms, of x] by (auto split: outcome.splits)

lemma loop_body_table:
  "table_step (s\<lparr>year := y\<rparr>) (state_of (snd (exec x (loop_body b y s))))"
proof -
  let ?s0 = "calculate_mean (calculate_ndvi (scale_image (get_image (s\<lparr>year := y\<rparr>))))"
  have "table_step ?s0 (state_of (snd (exec x (ask_and_record b ?s0))))"
    using ask_and_record_table by (rule wp_state)
  then show ?thesis
    by (simp add: loop_body_def table_step_def build_keeps_table)
qed

text \<open>
  Claim C10. One iteration of the loop changes nothing in the table but the
  \<^verbatim>\<open>Mean NDVI\<close> and \<^verbatim>\<open>Photo Date\<close> cells of the rows of its year: whatever the engine
  answers, and also when the iteration ends in an exception, the table keeps its
  length, every row keeps its \<^verbatim>\<open>Year\<close> and its \<^verbatim>\<open>Wine Score\<close>, and every row of another
  year is unchanged.
\<close>

theorem loop_iteration_frame:
  "length (wine_scores (state_of (snd (exec x (loop_body b y s))))) = length (wine_scores s)
   \<and> (\<forall>i < length (wine_scores s).
        Year (wine_scores (state_of (snd (exec x (loop_body b y s)))) ! i) =
          Year (wine_scores s ! i) \<and>
        Wine_Score (wine_scores (state_of (snd (exec x (loop_body b y s)))) ! i) =
          Wine_Score (wine_scores s ! i) \<and>
        (Year (wine_scores s ! i) \<noteq> y \<longrightarrow>
           wine_scores (state_of (snd (exec x (loop_body b y s)))) ! i = wine_scores s ! i))"
proof -
  let ?t = "wine_scores s"
  let ?t' = "wine_scores (state_of (snd (exec x (loop_body b y s))))"
  from loop_body_table[where s = s and y = y and x = x and b = b]
  consider "?t' = ?t" | m d where "?t' = loc_set_Photo_Date y d (loc_set_Mean_NDVI y m ?t)"
    by (auto simp: table_step_def)
  then show ?thesis
  proof cases
    case 1
    then show ?thesis by simp
  next
    case 2
    have len: "length ?t' = length ?t" using 2 by simp
    have yr: "map Year ?t' = map Year ?t" and ws: "map Wine_Score ?t' = map Wine_Score ?t"
      using 2 by simp_all
    have "Year (?t' ! i) = Year (?t ! i) \<and> Wine_Score (?t' ! i) = Wine_Score (?t ! i) \<and>
          (Year (?t ! i) \<noteq> y \<longrightarrow> ?t' ! i = ?t ! i)" if i: "i < length ?t" for i
    proof -
      have "Year (?t' ! i) = map Year ?t' ! i" "Wine_Score (?t' ! i) = map Wine_Score ?t' ! i"
        using i len by simp_all
      moreover have "?t' ! i = ?t ! i" if "Year (?t ! i) \<noteq> y"
        using 2 i that by (simp add: loc_set_other_rows)
      ultimately show ?thesis using i yr ws by simp
    qed
    with len show ?thesis by blast
  qed
qed

text \<open>
  The iteration for 2017 on the table as the cell before the loop builds it, with the
  engine that answers 1: six rows still, the second row (2018, score 92) is untouched,
  and the first row is still the row of 2017 with the score 93.
\<close>

theorem loop_iteration_frame_witness:
  "length (wine_scores (state_of (snd (exec sample_engine
      (loop_body sample_builtins 2017 (cell_36 sample_kernel)))))) = 6
   \<and> (1::nat) < length (wine_scores (cell_36 sample_kernel))
   \<and> Year (wine_scores (cell_36 sample_kernel) ! 1) \<noteq> 2017
   \<and> wine_scores (state_of (snd (exec sample_engine
        (loop_body sample_builtins 2017 (cell_36 sample_kernel))))) ! 1 =
      \<lparr>Year = 2018, Wine_Score = Some 92, Mean_NDVI = PyNone, Photo_Date = PyStr []\<rparr>
   \<and> Year (wine_scores (state_of (snd (exec sample_engine
        (loop_body sample_builtins 2017 (cell_36 sample_kernel))))) ! 0) = 2017
   \<and> Wine_Score (wine_scores (state_of (snd (exec sample_engine
        (loop_body sample_builtins 2017 (cell_36 sample_kernel))))) ! 0) = Some 93"
proof -
  have t: "wine_scores (cell_36 sample_kernel) =
      [\<lparr>Year = 2017, Wine_Score = Some 93, Mean_NDVI = PyNone, Photo_Date = PyStr []\<rparr>,
       \<lparr>Year = 2018, Wine_Score = Some 92, Mean_NDVI = PyNone, Photo_Date = PyStr []\<rparr>,
       \<lparr>Year = 2019, Wine_Score = Some 95, Mean_NDVI = PyNone, Photo_Date = PyStr []\<rparr>,
       \<lparr>Year = 2020, Wine_Score = Some 94, Mean_NDVI = PyNone, Photo_Date = PyStr []\<rparr>,
       \<lparr>Year = 2021, Wine_Score = None, Mean_NDVI = PyNone, Photo_Date = PyStr []\<rparr>,
       \<lparr>Year = 2022, Wine_Score = None, Mean_NDVI = PyNone, Photo_Date = PyStr []\<rparr>]"
    by (simp add: cell_36_def Let_def)
  note f = loop_iteration_frame[where x = sample_engine and b = sample_builtins and y = 2017
      and s = "cell_36 sample_kernel"]
  from f have "length (wine_scores (state_of (snd (exec sample_engine
      (loop_body sample_builtins 2017 (cell_36 sample_kernel)))))) = 6"
    by (simp add: t)
  moreover from f have "wine_scores (state_of (snd (exec sample_engine
        (loop_body sample_builtins 2017 (cell_36 sample_kernel))))) ! 1 =
      wine_scores (cell_36 sample_kernel) ! 1"
    by (elim conjE allE[where x = 1]) (simp add: t)
  moreover from f have "Year (wine_scores (state_of (snd (exec sample_engine
        (loop_body sample_builtins 2017 (cell_36 sample_kernel))))) ! 0) = 2017
     \<and> Wine_Score (wine_scores (state_of (snd (exec sample_engine
        (loop_body sample_builtins 2017 (cell_36 sample_kernel))))) ! 0) = Some 93"
    by (elim conjE allE[where x = 0]) (simp add: t)
  ultimately show ?thesis by (simp add: t)
qed


text \<open>The hand-typed columns survive everything after the cell that builds the table.\<close>

lemma typed_columns_step:
  assumes "typed_columns s0" "table_step s0 s'"
  shows "typed_columns s'"
  using assms by (auto simp: typed_columns_def table_step_def)

lemma loop_body_typed_columns:
  assumes "typed_columns s"
  shows "wp (loop_body b y s) h (\<lambda>r h. typed_columns) (\<lambda>h. typed_columns) (\<lambda>h e. typed_columns)"
proof -
  let ?s0 = "calculate_mean (calculate_ndvi (scale_image (get_image (s\<lparr>year := y\<rparr>))))"
  have "typed_columns ?s0"
    using assms by (simp add: typed_columns_def build_keeps_table)
  then have "table_step ?s0 s' \<Longrightarrow> typed_columns s'" for s'
    by (rule typed_columns_step)
  then show ?thesis
    unfolding loop_body_def by (intro wp_mono[OF ask_and_record_table])
qed

lemma cell_37_typed_columns:
  assumes "typed_columns s"
  shows "wp (cell_37 b s) h (\<lambda>r h. typed_columns) (\<lambda>h. typed_columns) (\<lambda>h e. typed_columns)"
proof -
  have "wp (for_each ys (loop_body b) s') h' (\<lambda>r h. typed_columns) (\<lambda>h. typed_columns)
          (\<lambda>h e. typed_columns)" if "typed_columns s'" for ys h' s'
    using that by (intro for_each_inv[where I = "\<lambda>h. typed_columns"] loop_body_typed_columns)
  then show ?thesis
    using assms by (simp add: cell_37_def Let_def typed_columns_def del: for_each.simps)
qed

lemma after_table_typed_columns:
  assumes "c \<in> set [cell_37 b, cell_39, assign cell_41]" "typed_columns s"
  shows "wp (c s) h (\<lambda>r h. typed_columns) (\<lambda>h. typed_columns) (\<lambda>h e. typed_columns)"
proof (cases "c = cell_37 b")
  case True
  then show ?thesis using assms(2) cell_37_typed_columns by simp
next
  case False
  then show ?thesis using assms
    by (auto simp: cell_39_def cell_41_def assign_def colorbar_of_vis_ndvi_def getitem_def
        add_colorbar_branca_def display_map_def typed_columns_def split: option.split)
qed

text \<open>
  Claim C4, as amended. From the cell that builds it to the end of the notebook the
  table has exactly six rows of year, wine score, mean NDVI and photo date, and its
  \<^verbatim>\<open>Year\<close> and \<^verbatim>\<open>Wine Score\<close> columns are never modified: whatever the engine answers
  in the cells that follow, and also when one of them ends in an exception, the years
  are 2017 to 2022 and the scores 93, 92, 95, 94 and two missing ones.
\<close>

theorem table_shape_kept:
  "length (wine_scores (state_of (snd (exec x
      (for_each [cell_37 b, cell_39, assign cell_41] (\<lambda>c. c) (cell_36 s)))))) = 6
   \<and> map Year (wine_scores (state_of (snd (exec x
      (for_each [cell_37 b, cell_39, assign cell_41] (\<lambda>c. c) (cell_36 s)))))) =
       [2017, 2018, 2019, 2020, 2021, 2022]
   \<and> map Wine_Score (wine_scores (state_of (snd (exec x
      (for_each [cell_37 b, cell_39, assign cell_41] (\<lambda>c. c) (cell_36 s)))))) =
       [Some 93, Some 92, Some 95, Some 94, None, None]"
proof -
  let ?s' = "state_of (snd (exec x
      (for_each [cell_37 b, cell_39, assign cell_41] (\<lambda>c. c) (cell_36 s))))"
  have "typed_columns (cell_36 s)"
    by (simp add: typed_columns_def cell_36_def Let_def)
  then have "wp (for_each [cell_37 b, cell_39, assign cell_41] (\<lambda>c. c) (cell_36 s)) []
      (\<lambda>r h. typed_columns) (\<lambda>h. typed_columns) (\<lambda>h e. typed_columns)"
    by (intro for_each_inv[where I = "\<lambda>h. typed_columns"] after_table_typed_columns)
  then have t: "typed_columns ?s'"
    by (rule wp_state)
  then have "length (map Year (wine_scores ?s')) = 6"
    by (simp add: typed_columns_def)
  then show ?thesis
    using t by (simp add: typed_columns_def)
qed

text \<open>The loop fills the mean of the year's rows, unless an answer is not a number.\<close>

lemma ask_and_record_fills:
  "wp (ask_and_record b s0) h (\<lambda>r h s. True)
     (\<lambda>h s'. \<exists>n d. wine_scores s' =
         loc_set_Photo_Date (year s0) d (loc_set_Mean_NDVI (year s0) (PyNum n) (wine_scores s0)))
     (\<lambda>h e s. not_all_numbers h)"
  by (auto simp: ask_and_record_def py_round_def add_ee_layer_def print_def
      Let_def split: pyval.split)

lemma filled_after_loc_set:
  assumes "some_mean_filled s \<or> (\<exists>r \<in> set (wine_scores s). Year r = y)"
    and "wine_scores s' = loc_set_Photo_Date y d (loc_set_Mean_NDVI y (PyNum n) (wine_scores s))"
  shows "some_mean_filled s'"
proof -
  from assms(1) obtain r where r: "r \<in> set (wine_scores s)"
    "(\<exists>k. Mean_NDVI r = PyNum k) \<or> Year r = y"
    by (auto simp: some_mean_filled_def)
  let ?r' = "(\<lambda>r. if Year r = y then r\<lparr>Photo_Date := d\<rparr> else r)
               ((\<lambda>r. if Year r = y then r\<lparr>Mean_NDVI := PyNum n\<rparr> else r) r)"
  have "?r' \<in> set (wine_scores s')"
    using r(1) assms(2) by (simp add: loc_set_Mean_NDVI_def loc_set_Photo_Date_def image_iff) blast
  moreover have "\<exists>k. Mean_NDVI ?r' = PyNum k"
    using r(2) by auto
  ultimately show ?thesis
    unfolding some_mean_filled_def by blast
qed

lemma loop_body_fills:
  assumes "some_mean_filled s \<or> (\<exists>r \<in> set (wine_scores s). Year r = y)"
  shows "wp (loop_body b y s) h (\<lambda>r h s. True) (\<lambda>h. some_mean_filled) (\<lambda>h e s. not_all_numbers h)"
proof -
  let ?s0 = "calculate_mean (calculate_ndvi (scale_image (get_image (s\<lparr>year := y\<rparr>))))"
  have "some_mean_filled ?s0 \<or> (\<exists>r \<in> set (wine_scores ?s0). Year r = y)"
    using assms by (simp add: some_mean_filled_def build_keeps_table)
  then have "some_mean_filled s'"
    if "\<exists>n d. wine_scores s' =
         loc_set_Photo_Date (year ?s0) d (loc_set_Mean_NDVI (year ?s0) (PyNum n) (wine_scores ?s0))"
    for s'
    using that filled_after_loc_set[of ?s0 y s'] by (auto simp: build_keeps_table)
  then show ?thesis
    unfolding loop_body_def by (intro wp_mono[OF ask_and_record_fills]) auto
qed

lemma cell_37_fills:
  "wp (cell_37 b (cell_36 s)) h (\<lambda>r h s. True) (\<lambda>h. some_mean_filled)
     (\<lambda>h e s. not_all_numbers h)"
proof -
  have rest: "wp (for_each ys (loop_body b) s') h' (\<lambda>r h s. True) (\<lambda>h. some_mean_filled)
          (\<lambda>h e s. not_all_numbers h)" if "some_mean_filled s'" for ys h' s'
    using that
    by (intro for_each_inv[where I = "\<lambda>h. some_mean_filled"] loop_body_fills) auto
  have first: "wp (loop_body b 2017 s') h' (\<lambda>r h s. True) (\<lambda>h. some_mean_filled)
          (\<lambda>h e s. not_all_numbers h)" if "wine_scores s' = wine_scores (cell_36 s)" for h' s'
    using that by (intro loop_body_fills) (simp add: cell_36_def Let_def)
  have "wp (then_prog (loop_body b 2017 s') (for_each ys (loop_body b))) h'
          (\<lambda>r h s. True) (\<lambda>h. some_mean_filled) (\<lambda>h e s. not_all_numbers h)"
    if "wine_scores s' = wine_scores (cell_36 s)" for ys h' s'
    using first[OF that] rest by (rule wp_seq)
  then show ?thesis
    by (simp add: cell_37_def Let_def)
qed

text \<open>
  Counterexample to claim C4 as stated (the table is not modified after it is
  constructed): with the engine that answers every request with 1, the loop that follows
  the construction of the table leaves a table different from the constructed one.
\<close>

theorem table_static_counterexample:
  "wine_scores (state_of (snd (exec sample_engine
      (cell_37 sample_builtins (cell_36 sample_kernel))))) \<noteq>
   wine_scores (cell_36 sample_kernel)"
proof -
  let ?p = "cell_37 sample_builtins (cell_36 sample_kernel)"
  have answers: "a = Inr (PyNum 1)" if "(r, a) \<in> set (fst (exec sample_engine ?p))" for r a
    using exec_answers[OF that] by (auto simp: sample_engine_def)
  have numbers: "\<not> not_all_numbers (fst (exec sample_engine ?p))"
    using answers by (auto simp: not_all_numbers_def)
  have no_failure: "last (fst (exec sample_engine ?p)) \<noteq> (r, Inl e)"
    if "fst (exec sample_engine ?p) \<noteq> []" for r e
    using answers[of "fst (last (fst (exec sample_engine ?p)))"
        "snd (last (fst (exec sample_engine ?p)))"] that last_in_set[OF that]
    by auto
  have "wp ?p [] (\<lambda>r h s. True) (\<lambda>h. some_mean_filled) (\<lambda>h e s. not_all_numbers h)"
    by (rule cell_37_fills)
  from wp_sound[OF this, of sample_engine]
  have "some_mean_filled (state_of (snd (exec sample_engine ?p)))"
    using numbers no_failure by (auto split: outcome.splits)
  moreover have "\<not> some_mean_filled (cell_36 sample_kernel)"
    by (auto simp: some_mean_filled_def cell_36_def Let_def)
  ultimately show ?thesis
    by (auto simp: some_mean_filled_def)
qed

section \<open>Runs of the whole notebook\<close>

lemmas cell_defs =
  cell_2_def cell_4_def cell_6_def cell_9_def cell_11_def cell_13_def cell_16_def cell_18_def
  cell_21_def cell_23_def cell_25_def cell_26_def cell_28_def cell_30_def cell_31_def
  cell_36_def cell_39_def cell_41_def assign_def
  add_ee_layer_def add_colorbar_branca_def colorbar_of_vis_ndvi_def getitem_def
  display_map_def print_def py_round_def

lemmas literal_defs =
  vis_ndvi_literal_def landsat_nat_literal_def landsat_IR_literal_def landsat_veg_literal_def
  sentinel_nat_literal_def sentinel_IR_literal_def

lemmas assertion_defs =
  kept_def call_ok_def raise_ok_def landsat_declared_def sentinel_declared_def finished_ok_def

text \<open>The cells before the display parameters are declared.\<close>

lemma first_cells:
  assumes "c \<in> set [cell_2, assign cell_4, cell_6 b, assign cell_9]" "kept h s"
  shows "wp (c s) h call_ok kept raise_ok"
  using assms by (auto simp: cell_defs assertion_defs Let_def)

lemma declaring_cell_11:
  assumes "kept h s"
  shows "wp (assign cell_11 s) h call_ok (\<lambda>h s. kept h s \<and> landsat_declared s)
           raise_ok"
  using assms by (auto simp: cell_defs assertion_defs Let_def)

lemma landsat_cells:
  assumes "c \<in> set [cell_13, assign cell_16, cell_18, assign cell_21, cell_23 b]"
    "kept h s \<and> landsat_declared s"
  shows "wp (c s) h call_ok (\<lambda>h s. kept h s \<and> landsat_declared s) raise_ok"
  using assms
  by (auto simp: cell_defs assertion_defs Let_def literal_defs split: pyval.split)

lemma declaring_cell_25:
  assumes "kept h s \<and> landsat_declared s"
  shows "wp (assign cell_25 s) h call_ok
           (\<lambda>h s. kept h s \<and> landsat_declared s \<and> sentinel_declared s) raise_ok"
  using assms by (auto simp: cell_defs assertion_defs Let_def)

lemma sentinel_cells:
  assumes "c \<in> set [cell_26, assign cell_28, cell_30 b, assign cell_31, assign cell_36]"
    "kept h s \<and> landsat_declared s \<and> sentinel_declared s"
  shows "wp (c s) h call_ok
           (\<lambda>h s. kept h s \<and> landsat_declared s \<and> sentinel_declared s) raise_ok"
  using assms
  by (auto simp: cell_defs assertion_defs Let_def literal_defs split: pyval.split)

text \<open>The loop.\<close>

lemma build_keeps:
  "landsat_nat (calculate_mean (calculate_ndvi (scale_image (get_image (s\<lparr>year := y\<rparr>))))) =
     landsat_nat s"
  "landsat_IR (calculate_mean (calculate_ndvi (scale_image (get_image (s\<lparr>year := y\<rparr>))))) =
     landsat_IR s"
  "vis_ndvi (calculate_mean (calculate_ndvi (scale_image (get_image (s\<lparr>year := y\<rparr>))))) =
     vis_ndvi s"
  "sentinel_nat (calculate_mean (calculate_ndvi (scale_image (get_image (s\<lparr>year := y\<rparr>))))) =
     sentinel_nat s"
  "sentinel_IR (calculate_mean (calculate_ndvi (scale_image (get_image (s\<lparr>year := y\<rparr>))))) =
     sentinel_IR s"
  "is_mean_request (GetInfo (Get (mean_ndvi
      (calculate_mean (calculate_ndvi (scale_image (get_image (s\<lparr>year := y\<rparr>)))))) k))"
  by (simp_all add: calculate_mean_def calculate_ndvi_def scale_image_def get_image_def Let_def)

lemma ask_and_record_ok:
  assumes "kept h s0 \<and> landsat_declared s0 \<and> sentinel_declared s0"
    "is_mean_request (GetInfo (Get (mean_ndvi s0) ''B8''))"
  shows "wp (ask_and_record b s0) h call_ok finished_ok raise_ok"
  using assms
  by (auto simp: ask_and_record_def cell_defs assertion_defs Let_def split: pyval.split)

lemma loop_body_ok:
  assumes "kept h s \<and> landsat_declared s \<and> sentinel_declared s"
  shows "wp (loop_body b y s) h call_ok finished_ok raise_ok"
  unfolding loop_body_def
  using assms by (intro ask_and_record_ok) (simp_all add: assertion_defs build_keeps)

lemma cell_37_ok:
  assumes "kept h s \<and> landsat_declared s \<and> sentinel_declared s"
  shows "wp (cell_37 b s) h call_ok finished_ok raise_ok"
proof -
  have rest: "wp (for_each ys (loop_body b) s') h' call_ok finished_ok raise_ok"
    if "finished_ok h' s'" for ys h' s'
    using that
    by (intro for_each_inv[where I = finished_ok] loop_body_ok) (simp_all add: finished_ok_def)
  have "wp (then_prog (loop_body b 2017 s') (for_each ys (loop_body b))) h'
          call_ok finished_ok raise_ok"
    if "kept h' s' \<and> landsat_declared s' \<and> sentinel_declared s'" for ys h' s'
    using loop_body_ok[OF that] rest by (rule wp_seq)
  then show ?thesis
    using assms by (simp add: cell_37_def Let_def assertion_defs)
qed

lemma last_cells:
  assumes "c \<in> set [cell_39, assign cell_41]" "finished_ok h s"
  shows "wp (c s) h call_ok finished_ok raise_ok"
  using assms
  by (auto simp: cell_defs assertion_defs Let_def literal_defs)

text \<open>The notebook, cut where the assertion between the cells changes.\<close>

lemma cells_split:
  "cells b =
     [cell_2, assign cell_4, cell_6 b, assign cell_9] @ assign cell_11 #
     [cell_13, assign cell_16, cell_18, assign cell_21, cell_23 b] @ assign cell_25 #
     [cell_26, assign cell_28, cell_30 b, assign cell_31, assign cell_36] @ cell_37 b #
     [cell_39, assign cell_41]"
  by (simp add: cells_def)

lemma notebook_ok:
  "wp (notebook b s) [] call_ok finished_ok raise_ok"
proof -
  let ?W = "\<lambda>p h Q. wp p h call_ok Q raise_ok"
  let ?c7 = "[cell_39, assign cell_41]"
  let ?c6 = "cell_37 b # ?c7"
  let ?c5 = "[cell_26, assign cell_28, cell_30 b, assign cell_31, assign cell_36] @ ?c6"
  let ?c4 = "assign cell_25 # ?c5"
  let ?c3 = "[cell_13, assign cell_16, cell_18, assign cell_21, cell_23 b] @ ?c4"
  let ?c2 = "assign cell_11 # ?c3"
  let ?c1 = "[cell_2, assign cell_4, cell_6 b, assign cell_9] @ ?c2"
  have start: "kept [] s" by (simp add: kept_def)
  have 7: "?W (for_each ?c7 (\<lambda>c. c) s') h' finished_ok"
    if "finished_ok h' s'" for h' s'
    using that by (intro for_each_inv[where I = finished_ok] last_cells)
  have 6: "?W (for_each ?c6 (\<lambda>c. c) s') h' finished_ok"
    if "kept h' s' \<and> landsat_declared s' \<and> sentinel_declared s'" for h' s'
    unfolding for_each.simps(2)[of "cell_37 b"]
    using cell_37_ok[OF that] 7 by (rule wp_seq)
  have 5: "?W (for_each ?c5 (\<lambda>c. c) s') h' finished_ok"
    if "kept h' s' \<and> landsat_declared s' \<and> sentinel_declared s'" for h' s'
    unfolding for_each_append
    using that 6
    by (intro wp_seq[OF for_each_inv[where
            I = "\<lambda>h s. kept h s \<and> landsat_declared s \<and> sentinel_declared s"]] sentinel_cells)
  have 4: "?W (for_each ?c4 (\<lambda>c. c) s') h' finished_ok"
    if "kept h' s' \<and> landsat_declared s'" for h' s'
    unfolding for_each.simps(2)[of "assign cell_25"]
    using declaring_cell_25[OF that] 5 by (rule wp_seq)
  have 3: "?W (for_each ?c3 (\<lambda>c. c) s') h' finished_ok"
    if "kept h' s' \<and> landsat_declared s'" for h' s'
    unfolding for_each_append
    using that 4
    by (intro wp_seq[OF for_each_inv[where I = "\<lambda>h s. kept h s \<and> landsat_declared s"]]
        landsat_cells)
  have 2: "?W (for_each ?c2 (\<lambda>c. c) s') h' finished_ok"
    if "kept h' s'" for h' s'
    unfolding for_each.simps(2)[of "assign cell_11"]
    using declaring_cell_11[OF that] 3 by (rule wp_seq)
  have 1: "?W (for_each ?c1 (\<lambda>c. c) s) [] finished_ok"
    unfolding for_each_append
    using start 2
    by (intro wp_seq[OF for_each_inv[where I = kept]] first_cells)
  then show ?thesis
    unfolding notebook_def cells_split .
qed

text \<open>Two concrete runs: no request is answered; no layer can be rendered.\<close>

lemma failing_run:
  "exec failing_engine (notebook b s) =
     ([(New_Map map_center 11 True (Some False) False, Inl (Exception ''no connection''))],
      Failed (Exception ''no connection'') s)"
  by (simp add: exec_def notebook_def cells_def cell_2_def failing_engine_def)

lemma no_layer_run:
  "\<exists>obj t. fst (exec no_layer_engine (notebook sample_builtins sample_kernel)) =
     t @ [(Add_ee_layer Burgundy_map obj (properties landsat_IR_literal)
             ''2022 False Color (5,4,3)'', Inl (Exception ''no tiles''))]"
  by (simp add: exec_def notebook_def cells_def cell_defs no_layer_engine_def Let_def
      landsat_IR_literal_def)

text \<open>A run in which no mean has a value asks for a mean and ends in a \<^verbatim>\<open>TypeError\<close>.\<close>

lemma null_mean_run:
  "(\<exists>r. (r, Inr PyNone) \<in> set (fst (exec null_mean_engine (notebook b s))) \<and> is_mean_request r)
   \<and> (\<exists>s'. snd (exec null_mean_engine (notebook b s)) = Failed TypeError s')"
proof -
  let ?t = "fst (exec null_mean_engine (notebook b s))"
  let ?o = "snd (exec null_mean_engine (notebook b s))"
  have answers: "a = (if is_mean_request r then Inr PyNone else Inr (PyNum 1))"
    if "(r, a) \<in> set ?t" for r a
    using exec_answers[OF that] by (auto simp: null_mean_engine_def)
  have no_failure: "last ?t \<noteq> (r, Inl e)" if "?t \<noteq> []" for r e
    using answers[of "fst (last ?t)" "snd (last ?t)"] last_in_set[OF that]
    by (auto split: if_splits)
  have not_finished: "?o \<noteq> Finished s'" for s'
  proof
    assume f: "?o = Finished s'"
    with wp_sound[OF notebook_ok[of b s], of null_mean_engine]
    have "has_mean ?t" "means_numeric ?t"
      by (simp_all add: finished_ok_def kept_def)
    then obtain r a n where ra: "(r, a) \<in> set ?t" "is_mean_request r" "a = Inr (PyNum n)"
      unfolding has_mean_def means_numeric_def by blast
    from answers[OF ra(1)] ra(2,3) show False by simp
  qed
  then obtain e s' where o: "?o = Failed e s'"
    by (cases ?o) auto
  with wp_sound[OF notebook_ok[of b s], of null_mean_engine] no_failure
  have e: "e = TypeError" and n: "not_all_numbers ?t"
    by (auto simp: raise_ok_def)
  from n obtain r a where ra: "(r, a) \<in> set ?t" "\<forall>n. a \<noteq> Inr (PyNum n)"
    unfolding not_all_numbers_def by blast
  with answers[OF ra(1)] have "is_mean_request r" "a = Inr PyNone"
    by (auto split: if_splits)
  with ra(1) o e show ?thesis by blast
qed

text \<open>
  Claim C3. No cell catches or handles an exception, and nothing is validated before a
  call. In every run of the notebook: a request the engine answers with an exception is
  the last request of the run, and the run ends with that exception; an exception that
  ends the run is either the one the engine gave for the last request, or the
  \<^verbatim>\<open>TypeError\<close> of rounding an answer that is not a number (the notebook raises nothing of
  its own); and a run in which a mean comes back as \<^verbatim>\<open>None\<close> does not finish.
\<close>

theorem exceptions_propagate:
  "(\<forall>i e. i < length (fst (exec x (notebook b s))) \<and>
           snd (fst (exec x (notebook b s)) ! i) = Inl e \<longrightarrow>
           Suc i = length (fst (exec x (notebook b s))) \<and>
           (\<exists>s'. snd (exec x (notebook b s)) = Failed e s'))
   \<and> (\<forall>e s'. snd (exec x (notebook b s)) = Failed e s' \<longrightarrow>
           (fst (exec x (notebook b s)) \<noteq> [] \<and>
            snd (last (fst (exec x (notebook b s)))) = Inl e) \<or>
           (e = TypeError \<and> not_all_numbers (fst (exec x (notebook b s)))))
   \<and> (\<forall>r. (r, Inr PyNone) \<in> set (fst (exec x (notebook b s))) \<and> is_mean_request r \<longrightarrow>
           (\<exists>e s'. snd (exec x (notebook b s)) = Failed e s'))"
proof (intro conjI allI impI)
  fix i e
  assume "i < length (fst (exec x (notebook b s))) \<and> snd (fst (exec x (notebook b s)) ! i) = Inl e"
  then show "Suc i = length (fst (exec x (notebook b s)))"
    and "\<exists>s'. snd (exec x (notebook b s)) = Failed e s'"
    using exec_failure_last[of i x "notebook b s" e] by simp_all
next
  fix e s'
  assume "snd (exec x (notebook b s)) = Failed e s'"
  with wp_sound[OF notebook_ok[of b s], of x]
  show "(fst (exec x (notebook b s)) \<noteq> [] \<and> snd (last (fst (exec x (notebook b s)))) = Inl e) \<or>
        (e = TypeError \<and> not_all_numbers (fst (exec x (notebook b s))))"
    by (auto simp: raise_ok_def)
next
  fix r
  assume r: "(r, Inr PyNone) \<in> set (fst (exec x (notebook b s))) \<and> is_mean_request r"
  show "\<exists>e s'. snd (exec x (notebook b s)) = Failed e s'"
  proof (cases "snd (exec x (notebook b s))")
    case (Finished s')
    with wp_sound[OF notebook_ok[of b s], of x]
    have "means_numeric (fst (exec x (notebook b s)))"
      by (simp add: finished_ok_def kept_def)
    with r show ?thesis
      unfolding means_numeric_def by blast
  next
    case (Failed e s')
    then show ?thesis by blast
  qed
qed

text \<open>
  With the engine that answers nothing, the first request fails and its exception ends
  the run. With the engine that has no value for a mean, a mean comes back as \<^verbatim>\<open>None\<close>
  and the run ends in a \<^verbatim>\<open>TypeError\<close>.
\<close>

theorem exceptions_propagate_witness:
  "(0::nat) < length (fst (exec failing_engine (notebook sample_builtins sample_kernel)))
   \<and> snd (fst (exec failing_engine (notebook sample_builtins sample_kernel)) ! 0) =
       Inl (Exception ''no connection'')
   \<and> (\<exists>s'. snd (exec failing_engine (notebook sample_builtins sample_kernel)) =
             Failed (Exception ''no connection'') s')
   \<and> (\<exists>r. (r, Inr PyNone) \<in> set (fst (exec null_mean_engine
              (notebook sample_builtins sample_kernel))) \<and> is_mean_request r)
   \<and> (\<exists>e s'. snd (exec null_mean_engine (notebook sample_builtins sample_kernel)) =
             Failed e s')"
proof -
  have a: "(0::nat) < length (fst (exec failing_engine (notebook sample_builtins sample_kernel)))"
    "snd (fst (exec failing_engine (notebook sample_builtins sample_kernel)) ! 0) =
       Inl (Exception ''no connection'')"
    by (simp_all add: failing_run)
  note t1 = exceptions_propagate[where x = failing_engine and b = sample_builtins
      and s = sample_kernel]
  from t1 a have f: "\<exists>s'. snd (exec failing_engine (notebook sample_builtins sample_kernel)) =
      Failed (Exception ''no connection'') s'"
    by blast
  from null_mean_run[of sample_builtins sample_kernel]
  obtain r where r: "(r, Inr PyNone) \<in> set (fst (exec null_mean_engine
      (notebook sample_builtins sample_kernel)))" "is_mean_request r"
    by blast
  note t2 = exceptions_propagate[where x = null_mean_engine and b = sample_builtins
      and s = sample_kernel]
  from t2 r have "\<exists>e s'. snd (exec null_mean_engine (notebook sample_builtins sample_kernel)) =
      Failed e s'"
    by blast
  with a f r show ?thesis by blast
qed

text \<open>
  Claim C5. Every layer-adding call of every run passes, as its display parameters, the
  \<^verbatim>\<open>'properties'\<close> dictionary of the literal the cell names there, exactly as declared.
\<close>

theorem layer_calls_pass_declared_params:
  "\<forall>r a. (r, a) \<in> set (fst (exec x (notebook b s))) \<longrightarrow> passes_declared r"
proof (intro allI impI)
  fix r a
  assume "(r, a) \<in> set (fst (exec x (notebook b s)))"
  from wp_calls[OF notebook_ok this] show "passes_declared r"
    by (auto simp: call_ok_def)
qed

text \<open>
  With the engine that cannot render a layer, the run ends at the first layer-adding
  call, which passes the false-colour dictionary as declared.
\<close>

theorem layer_calls_pass_declared_params_witness:
  "\<exists>obj. (Add_ee_layer Burgundy_map obj (properties landsat_IR_literal)
            ''2022 False Color (5,4,3)'', Inl (Exception ''no tiles''))
          \<in> set (fst (exec no_layer_engine (notebook sample_builtins sample_kernel)))
        \<and> passes_declared (Add_ee_layer Burgundy_map obj (properties landsat_IR_literal)
            ''2022 False Color (5,4,3)'')"
proof -
  from no_layer_run obtain obj t where
    "fst (exec no_layer_engine (notebook sample_builtins sample_kernel)) =
     t @ [(Add_ee_layer Burgundy_map obj (properties landsat_IR_literal)
             ''2022 False Color (5,4,3)'', Inl (Exception ''no tiles''))]"
    by blast
  then have m: "(Add_ee_layer Burgundy_map obj (properties landsat_IR_literal)
            ''2022 False Color (5,4,3)'', Inl (Exception ''no tiles''))
          \<in> set (fst (exec no_layer_engine (notebook sample_builtins sample_kernel)))"
    by simp
  with layer_calls_pass_declared_params[where x = no_layer_engine and b = sample_builtins
      and s = sample_kernel]
  have "passes_declared (Add_ee_layer Burgundy_map obj (properties landsat_IR_literal)
            ''2022 False Color (5,4,3)'')"
    by blast
  with m show ?thesis by blast
qed

section \<open>The table and the layers as functions of the answers\<close>

lemma answer_append:
  "i < length as \<Longrightarrow> answer (as @ bs) i = answer as i"
  by (simp add: answer_def nth_append)

lemma answer_after:
  "answer (as @ bs) (length as + k) = answer bs k"
  by (simp add: answer_def nth_append)

lemma six_indices: "[0..<6] = [0, 1, 2, 3, 4, 5]"
  by (simp add: upt_rec)

lemma filled_table_append:
  assumes "20 + 5 * i \<le> length as"
  shows "filled_table (as @ bs) i = filled_table as i"
  unfolding filled_table_def using assms by (intro map_cong) (simp_all add: answer_append)

lemma filled_table_row:
  assumes "i < 6"
  shows "filled_table as (Suc i) =
           loc_set_Photo_Date (2017 + int i) (answer as (22 + 5 * i))
             (loc_set_Mean_NDVI (2017 + int i) (answer as (20 + 5 * i)) (filled_table as i))"
proof -
  from assms consider "i = 0" | "i = 1" | "i = 2" | "i = 3" | "i = 4" | "i = 5"
    by linarith
  then show ?thesis
    by cases
      (simp_all add: filled_table_def six_indices cell_36_def Let_def loc_set_Mean_NDVI_def
        loc_set_Photo_Date_def)
qed

lemma filled_table_step:
  assumes "i < 6" "length as = 20 + 5 * i"
  shows "filled_table (as @ [Inr m, v1, Inr d, v2, v3]) (Suc i) =
           loc_set_Photo_Date (2017 + int i) d
             (loc_set_Mean_NDVI (2017 + int i) m (filled_table as i))"
proof -
  have "answer (as @ [Inr m, v1, Inr d, v2, v3]) (20 + 5 * i) = m"
    "answer (as @ [Inr m, v1, Inr d, v2, v3]) (22 + 5 * i) = d"
    using answer_after[of as "[Inr m, v1, Inr d, v2, v3]" 0]
      answer_after[of as "[Inr m, v1, Inr d, v2, v3]" 2] assms(2)
    by (simp_all add: answer_def)
  then show ?thesis
    using assms by (simp add: filled_table_row filled_table_append)
qed

lemma yearly_layers_append:
  assumes "20 + 5 * i \<le> length as"
  shows "yearly_layers b (as @ bs) i = yearly_layers b as i"
proof -
  have "yearly_layer b (as @ bs) j = yearly_layer b as j" if "j < i" for j
    using that assms by (simp add: yearly_layer_def answer_append)
  then have "fold (\<lambda>j. put_layer (yearly_layer b (as @ bs) j)) [0..<i] [] =
             fold (\<lambda>j. put_layer (yearly_layer b as j)) [0..<i] []"
    by (intro fold_cong) simp_all
  then show ?thesis by (simp add: yearly_layers_def)
qed

lemma yearly_layers_step:
  assumes "length as = 20 + 5 * i"
  shows "yearly_layers b (as @ [Inr (PyNum m), v1, Inr d, v2, v3]) (Suc i) =
           put_layer \<lparr>ee_object = yearly_ndvi (2017 + int i), vis = properties vis_ndvi_literal,
                      layer_name = py_str b d @ '' - Mean NDVI: '' @ repr b (round2 b m)\<rparr>
             (yearly_layers b as i)"
proof -
  let ?as = "as @ [Inr (PyNum m), v1, Inr d, v2, v3]"
  have "answer ?as (20 + 5 * i) = PyNum m" "answer ?as (22 + 5 * i) = d"
    using answer_after[of as "[Inr (PyNum m), v1, Inr d, v2, v3]" 0]
      answer_after[of as "[Inr (PyNum m), v1, Inr d, v2, v3]" 2] assms
    by (simp_all add: answer_def)
  then have l: "yearly_layer b ?as i =
      \<lparr>ee_object = yearly_ndvi (2017 + int i), vis = properties vis_ndvi_literal,
       layer_name = py_str b d @ '' - Mean NDVI: '' @ repr b (round2 b m)\<rparr>"
    by (simp add: yearly_layer_def)
  have "yearly_layers b ?as (Suc i) = put_layer (yearly_layer b ?as i) (yearly_layers b ?as i)"
    by (simp add: yearly_layers_def)
  also have "yearly_layers b ?as i = yearly_layers b as i"
    using assms by (intro yearly_layers_append) simp
  finally show ?thesis using l by simp
qed

lemma asked_years_append:
  assumes "20 + 5 * i \<le> length h" "asked_years h i"
  shows "asked_years (h @ t) i"
  using assms by (auto simp: asked_years_def nth_append)

lemma asked_years_step:
  assumes "length h = 20 + 5 * i" "asked_years h i"
  shows "asked_years (h @ [(mean_request (2017 + int i), a1), q2,
                           (date_request (2017 + int i), a3), q4, q5]) (Suc i)"
proof -
  let ?h = "h @ [(mean_request (2017 + int i), a1), q2, (date_request (2017 + int i), a3), q4, q5]"
  have "fst (?h ! (20 + 5 * j)) = mean_request (2017 + int j) \<and>
        fst (?h ! (22 + 5 * j)) = date_request (2017 + int j)" if "j < Suc i" for j
  proof (cases "j = i")
    case True
    then show ?thesis using assms(1) by (simp add: nth_append)
  next
    case False
    with that have "j < i" by simp
    then show ?thesis using assms by (simp add: asked_years_def nth_append)
  qed
  then show ?thesis unfolding asked_years_def by blast
qed

text \<open>What one iteration of the loop asks, and what it does with the answers.\<close>

lemma ask_and_record_post:
  "wp (ask_and_record b s0) h (\<lambda>r h s. True)
     (\<lambda>h' s'. \<exists>m q2 d q4 q5.
        h' = h @ [(GetInfo (Get (mean_ndvi s0) ''B8''), Inr (PyNum m)), q2,
                  (GetInfo (Get (ImageProps (image_var s0)) ''IMAGE_DATE''), Inr d), q4, q5] \<and>
        wine_scores s' =
          loc_set_Photo_Date (year s0) d (loc_set_Mean_NDVI (year s0) (PyNum m) (wine_scores s0)) \<and>
        layers (ndvi_map s') =
          put_layer \<lparr>ee_object = ndvi s0, vis = properties (vis_ndvi s0),
                     layer_name = py_str b d @ '' - Mean NDVI: '' @ repr b (round2 b m)\<rparr>
            (layers (ndvi_map s0)) \<and>
        study_date s' = study_date s0 \<and> study_area s' = study_area s0 \<and>
        clip_area s' = clip_area s0 \<and> vis_ndvi s' = vis_ndvi s0)
     (\<lambda>h e s. True)"
  by (auto simp: ask_and_record_def py_round_def add_ee_layer_def print_def
      Let_def split: pyval.split)

lemma build_in_place:
  assumes "same_place s"
  shows "ndvi (calculate_mean (calculate_ndvi (scale_image (get_image (s\<lparr>year := y\<rparr>))))) =
           yearly_ndvi y"
    "GetInfo (Get (mean_ndvi
        (calculate_mean (calculate_ndvi (scale_image (get_image (s\<lparr>year := y\<rparr>)))))) ''B8'') =
       mean_request y"
    "GetInfo (Get (ImageProps (image_var
        (calculate_mean (calculate_ndvi (scale_image (get_image (s\<lparr>year := y\<rparr>))))))) ''IMAGE_DATE'') =
       date_request y"
    "same_place (calculate_mean (calculate_ndvi (scale_image (get_image (s\<lparr>year := y\<rparr>)))))"
    "vis_ndvi (calculate_mean (calculate_ndvi (scale_image (get_image (s\<lparr>year := y\<rparr>))))) =
       vis_ndvi s"
    "ndvi_map (calculate_mean (calculate_ndvi (scale_image (get_image (s\<lparr>year := y\<rparr>))))) =
       ndvi_map s"
  using assms
  by (simp_all add: same_place_def yearly_ndvi_def mean_request_def date_request_def
      yearly_state_def calculate_mean_def calculate_ndvi_def scale_image_def get_image_def Let_def)

lemma loop_body_step:
  assumes "i < 6" "in_loop b i h s"
  shows "wp (loop_body b (2017 + int i) s) h (\<lambda>r h s. True) (in_loop b (Suc i)) (\<lambda>h e s. True)"
proof -
  let ?s0 = "calculate_mean (calculate_ndvi (scale_image (get_image (s\<lparr>year := 2017 + int i\<rparr>))))"
  have p: "same_place s" and v: "vis_ndvi s = vis_ndvi_literal"
    and n: "length h = 20 + 5 * i" and a: "asked_years h i"
    and t: "wine_scores s = filled_table (responses h) i"
    and l: "layers (ndvi_map s) = yearly_layers b (responses h) i"
    using assms(2) by (simp_all add: in_loop_def)
  have n': "length (responses h) = 20 + 5 * i"
    using n by (simp add: responses_def)
  have "in_loop b (Suc i) h' s'"
    if "\<exists>m q2 d q4 q5.
        h' = h @ [(GetInfo (Get (mean_ndvi ?s0) ''B8''), Inr (PyNum m)), q2,
                  (GetInfo (Get (ImageProps (image_var ?s0)) ''IMAGE_DATE''), Inr d), q4, q5] \<and>
        wine_scores s' =
          loc_set_Photo_Date (year ?s0) d (loc_set_Mean_NDVI (year ?s0) (PyNum m) (wine_scores ?s0)) \<and>
        layers (ndvi_map s') =
          put_layer \<lparr>ee_object = ndvi ?s0, vis = properties (vis_ndvi ?s0),
                     layer_name = py_str b d @ '' - Mean NDVI: '' @ repr b (round2 b m)\<rparr>
            (layers (ndvi_map ?s0)) \<and>
        study_date s' = study_date ?s0 \<and> study_area s' = study_area ?s0 \<and>
        clip_area s' = clip_area ?s0 \<and> vis_ndvi s' = vis_ndvi ?s0" for h' s'
  proof -
    from that obtain m q2 d q4 q5 where
      h': "h' = h @ [(mean_request (2017 + int i), Inr (PyNum m)), q2,
                    (date_request (2017 + int i), Inr d), q4, q5]"
      and w: "wine_scores s' =
          loc_set_Photo_Date (2017 + int i) d
            (loc_set_Mean_NDVI (2017 + int i) (PyNum m) (wine_scores s))"
      and y: "layers (ndvi_map s') =
          put_layer \<lparr>ee_object = yearly_ndvi (2017 + int i), vis = properties vis_ndvi_literal,
                     layer_name = py_str b d @ '' - Mean NDVI: '' @ repr b (round2 b m)\<rparr>
            (layers (ndvi_map s))"
      and k: "same_place s'" "vis_ndvi s' = vis_ndvi_literal"
      using build_in_place[OF p, where y = "2017 + int i"]
        build_keeps_table[where s = s and y = "2017 + int i"] v p
      by (auto simp: same_place_def)
    have r: "responses h' = responses h @ [Inr (PyNum m), snd q2, Inr d, snd q4, snd q5]"
      using h' by (simp add: responses_def)
    have "length h' = 20 + 5 * Suc i"
      using h' n by simp
    moreover have "asked_years h' (Suc i)"
      unfolding h' using n a by (rule asked_years_step)
    moreover have "wine_scores s' = filled_table (responses h') (Suc i)"
      using w t r filled_table_step[OF assms(1) n'] by simp
    moreover have "layers (ndvi_map s') = yearly_layers b (responses h') (Suc i)"
      using y l r yearly_layers_step[OF n'] by simp
    ultimately show ?thesis
      using k by (simp add: in_loop_def)
  qed
  then show ?thesis
    unfolding loop_body_def by (intro wp_mono[OF ask_and_record_post]) auto
qed

lemma filled_table_none:
  "filled_table as 0 = wine_scores (cell_36 fresh_kernel)"
  by (simp add: filled_table_def six_indices cell_36_def Let_def)

lemma years_nth:
  "i < 6 \<Longrightarrow> [2017, 2018, 2019, 2020, 2021, 2022] ! i = 2017 + int i"
proof -
  assume "i < 6"
  then consider "i = 0" | "i = 1" | "i = 2" | "i = 3" | "i = 4" | "i = 5"
    by linarith
  then show ?thesis by cases simp_all
qed

text \<open>The loop, from the table as built, 19 requests into the run.\<close>

lemma cell_37_fills_table:
  assumes "tabled 19 h s"
  shows "wp (cell_37 b s) h (\<lambda>r h s. True) (looped b 50) (\<lambda>h e s. True)"
proof -
  let ?ys = "[2017, 2018, 2019, 2020, 2021, 2022] :: int list"
  have loop: "wp (for_each ?ys (loop_body b) s') h' (\<lambda>r h s. True) (looped b 50) (\<lambda>h e s. True)"
    if "in_loop b 0 h' s'" for h' s'
  proof -
    have six: "0 + length ?ys = 6"
      by simp
    have "wp (for_each ?ys (loop_body b) s') h' (\<lambda>r h s. True) (in_loop b (0 + length ?ys))
            (\<lambda>h e s. True)"
    proof (rule for_each_indexed[where I = "in_loop b" and k = 0])
      fix i h s
      assume "i < length ?ys" "in_loop b (0 + i) h s"
      then show "wp (loop_body b (?ys ! i) s) h (\<lambda>r h s. True) (in_loop b (Suc (0 + i)))
                   (\<lambda>h e s. True)"
        using loop_body_step[of i b h s] years_nth[of i] by simp
    qed (use that in simp)
    then have "wp (for_each ?ys (loop_body b) s') h' (\<lambda>r h s. True) (in_loop b 6)
            (\<lambda>h e s. True)"
      unfolding six .
    then show ?thesis
      by (rule wp_mono) (simp_all add: in_loop_def looped_def)
  qed
  have "in_loop b 0 (h @ [q])
          (s\<lparr>years := ?ys, images := Map.empty, ndvi_map := Map map_center 11 True None False\<rparr>)"
    for q
    using assms
    by (simp add: tabled_def in_loop_def same_place_def filled_table_none yearly_layers_def
        Map_def asked_years_def)
  then show ?thesis
    using loop by (simp add: cell_37_def Let_def del: for_each.simps)
qed

text \<open>The other cells, each from the number of requests issued before it.\<close>

lemma cells_before_the_loop:
  "asked 0 h s \<Longrightarrow> wp (cell_2 s) h (\<lambda>r h s. True) (asked 1) (\<lambda>h e s. True)"
  "asked 1 h s \<Longrightarrow> wp (assign cell_4 s) h (\<lambda>r h s. True) (placed 1) (\<lambda>h e s. True)"
  "placed 1 h s \<Longrightarrow> wp (cell_6 b s) h (\<lambda>r h s. True) (placed 4) (\<lambda>h e s. True)"
  "placed 4 h s \<Longrightarrow> wp (assign cell_9 s) h (\<lambda>r h s. True) (placed 4) (\<lambda>h e s. True)"
  "placed 4 h s \<Longrightarrow> wp (assign cell_11 s) h (\<lambda>r h s. True) (declared 4) (\<lambda>h e s. True)"
  "declared 4 h s \<Longrightarrow> wp (cell_13 s) h (\<lambda>r h s. True) (declared 6) (\<lambda>h e s. True)"
  "declared 6 h s \<Longrightarrow> wp (assign cell_16 s) h (\<lambda>r h s. True) (declared 6) (\<lambda>h e s. True)"
  "declared 6 h s \<Longrightarrow> wp (cell_18 s) h (\<lambda>r h s. True) (declared 8) (\<lambda>h e s. True)"
  "declared 8 h s \<Longrightarrow> wp (assign cell_21 s) h (\<lambda>r h s. True) (declared 8) (\<lambda>h e s. True)"
  "declared 8 h s \<Longrightarrow> wp (cell_23 b s) h (\<lambda>r h s. True) (declared 11) (\<lambda>h e s. True)"
  "declared 11 h s \<Longrightarrow> wp (assign cell_25 s) h (\<lambda>r h s. True) (declared 11) (\<lambda>h e s. True)"
  "declared 11 h s \<Longrightarrow> wp (cell_26 s) h (\<lambda>r h s. True) (declared 14) (\<lambda>h e s. True)"
  "declared 14 h s \<Longrightarrow> wp (assign cell_28 s) h (\<lambda>r h s. True) (declared 14) (\<lambda>h e s. True)"
  "declared 14 h s \<Longrightarrow> wp (cell_30 b s) h (\<lambda>r h s. True) (declared 19) (\<lambda>h e s. True)"
  "declared 19 h s \<Longrightarrow> wp (assign cell_31 s) h (\<lambda>r h s. True) (declared 19) (\<lambda>h e s. True)"
  "declared 19 h s \<Longrightarrow> wp (assign cell_36 s) h (\<lambda>r h s. True) (tabled 19) (\<lambda>h e s. True)"
  by (auto simp: cell_defs asked_def placed_def declared_def tabled_def same_place_def Let_def
      literal_defs split: pyval.split)

lemma cells_after_the_loop:
  "looped b 50 h s \<Longrightarrow> wp (cell_39 s) h (\<lambda>r h s. True) (looped b 51) (\<lambda>h e s. True)"
  "looped b 51 h s \<Longrightarrow> wp (assign cell_41 s) h (\<lambda>r h s. True) (looped b 51) (\<lambda>h e s. True)"
  by (auto simp: cell_defs looped_def responses_def Let_def literal_defs
      filled_table_append yearly_layers_append asked_years_append)

lemma wp_cell:
  assumes "wp (c s) h C P E" and "\<And>h s. P h s \<Longrightarrow> wp (for_each cs (\<lambda>c. c) s) h C Q E"
  shows "wp (for_each (c # cs) (\<lambda>c. c) s) h C Q E"
  using wp_seq[OF assms] by simp

lemma notebook_fills_table:
  "wp (notebook b s) [] (\<lambda>r h s. True) (looped b 51) (\<lambda>h e s. True)"
  unfolding notebook_def cells_def
  apply (rule wp_cell[OF cells_before_the_loop(1)])
   apply (simp add: asked_def)
  apply (rule wp_cell, erule cells_before_the_loop cell_37_fills_table cells_after_the_loop)+
  apply simp
  done

lemma filled_table_all:
  "filled_table as 6 =
     [\<lparr>Year = 2017, Wine_Score = Some 93, Mean_NDVI = answer as 20, Photo_Date = answer as 22\<rparr>,
      \<lparr>Year = 2018, Wine_Score = Some 92, Mean_NDVI = answer as 25, Photo_Date = answer as 27\<rparr>,
      \<lparr>Year = 2019, Wine_Score = Some 95, Mean_NDVI = answer as 30, Photo_Date = answer as 32\<rparr>,
      \<lparr>Year = 2020, Wine_Score = Some 94, Mean_NDVI = answer as 35, Photo_Date = answer as 37\<rparr>,
      \<lparr>Year = 2021, Wine_Score = None, Mean_NDVI = answer as 40, Photo_Date = answer as 42\<rparr>,
      \<lparr>Year = 2022, Wine_Score = None, Mean_NDVI = answer as 45, Photo_Date = answer as 47\<rparr>]"
  by (simp add: filled_table_def six_indices cell_36_def Let_def)

lemma finished_run:
  assumes "snd (exec x (notebook b s)) = Finished s'"
  shows "looped b 51 (fst (exec x (notebook b s))) s'"
  using wp_sound[OF notebook_fills_table[of b s], of x] assms by simp

text \<open>
  Claim C7. The notebook is deterministic with respect to the engine. Two runs from the
  same kernel state that get the same answers, one after the other, are the same run:
  the same requests, the same outcome, the same state, with its table and the layers on
  its maps. A run that finishes has issued 51 requests; for each of the six years the
  requests 20 + 5 i and 22 + 5 i (counted from 0) are the ones for the year's mean and
  for the date of the year's image; the table it leaves is the six typed rows with the
  answers to these requests as mean NDVI and photo date; and the layers on the yearly
  map are the yearly NDVI images, each named by its date and its rounded mean, a later
  layer replacing an earlier one of the same name. The table and these layers depend on
  nothing else, not even on the state the kernel was in at the start: two finished runs
  that get the same answers leave the same table and the same yearly layers.
\<close>

theorem run_determined_by_responses:
  "(responses (fst (exec x1 (notebook b s))) = responses (fst (exec x2 (notebook b s))) \<longrightarrow>
      exec x1 (notebook b s) = exec x2 (notebook b s))
   \<and>
   (snd (exec x (notebook b s)) = Finished s' \<longrightarrow>
      length (fst (exec x (notebook b s))) = 51 \<and>
      (\<forall>i < 6. fst (fst (exec x (notebook b s)) ! (20 + 5 * i)) = mean_request (2017 + int i) \<and>
               fst (fst (exec x (notebook b s)) ! (22 + 5 * i)) = date_request (2017 + int i)) \<and>
      (let as = responses (fst (exec x (notebook b s))) in
         wine_scores s' =
           [\<lparr>Year = 2017, Wine_Score = Some 93, Mean_NDVI = answer as 20, Photo_Date = answer as 22\<rparr>,
            \<lparr>Year = 2018, Wine_Score = Some 92, Mean_NDVI = answer as 25, Photo_Date = answer as 27\<rparr>,
            \<lparr>Year = 2019, Wine_Score = Some 95, Mean_NDVI = answer as 30, Photo_Date = answer as 32\<rparr>,
            \<lparr>Year = 2020, Wine_Score = Some 94, Mean_NDVI = answer as 35, Photo_Date = answer as 37\<rparr>,
            \<lparr>Year = 2021, Wine_Score = None, Mean_NDVI = answer as 40, Photo_Date = answer as 42\<rparr>,
            \<lparr>Year = 2022, Wine_Score = None, Mean_NDVI = answer as 45, Photo_Date = answer as 47\<rparr>] \<and>
         layers (ndvi_map s') = yearly_layers b as 6))
   \<and>
   (snd (exec x1 (notebook b s1)) = Finished s1' \<and> snd (exec x2 (notebook b s2)) = Finished s2' \<and>
    responses (fst (exec x1 (notebook b s1))) = responses (fst (exec x2 (notebook b s2))) \<longrightarrow>
      wine_scores s1' = wine_scores s2' \<and> layers (ndvi_map s1') = layers (ndvi_map s2'))"
proof (intro conjI impI)
  assume "responses (fst (exec x1 (notebook b s))) = responses (fst (exec x2 (notebook b s)))"
  then show "exec x1 (notebook b s) = exec x2 (notebook b s)"
    unfolding exec_def responses_def by (rule exec_from_same_responses)
next
  assume "snd (exec x (notebook b s)) = Finished s'"
  then have l: "looped b 51 (fst (exec x (notebook b s))) s'"
    by (rule finished_run)
  then show "length (fst (exec x (notebook b s))) = 51"
    by (simp add: looped_def)
  from l show "\<forall>i < 6. fst (fst (exec x (notebook b s)) ! (20 + 5 * i)) = mean_request (2017 + int i) \<and>
                 fst (fst (exec x (notebook b s)) ! (22 + 5 * i)) = date_request (2017 + int i)"
    by (simp add: looped_def asked_years_def)
  from l show "let as = responses (fst (exec x (notebook b s))) in
         wine_scores s' =
           [\<lparr>Year = 2017, Wine_Score = Some 93, Mean_NDVI = answer as 20, Photo_Date = answer as 22\<rparr>,
            \<lparr>Year = 2018, Wine_Score = Some 92, Mean_NDVI = answer as 25, Photo_Date = answer as 27\<rparr>,
            \<lparr>Year = 2019, Wine_Score = Some 95, Mean_NDVI = answer as 30, Photo_Date = answer as 32\<rparr>,
            \<lparr>Year = 2020, Wine_Score = Some 94, Mean_NDVI = answer as 35, Photo_Date = answer as 37\<rparr>,
            \<lparr>Year = 2021, Wine_Score = None, Mean_NDVI = answer as 40, Photo_Date = answer as 42\<rparr>,
            \<lparr>Year = 2022, Wine_Score = None, Mean_NDVI = answer as 45, Photo_Date = answer as 47\<rparr>] \<and>
         layers (ndvi_map s') = yearly_layers b as 6"
    by (simp add: looped_def filled_table_all Let_def)
next
  assume a: "snd (exec x1 (notebook b s1)) = Finished s1' \<and>
    snd (exec x2 (notebook b s2)) = Finished s2' \<and>
    responses (fst (exec x1 (notebook b s1))) = responses (fst (exec x2 (notebook b s2)))"
  then have "looped b 51 (fst (exec x1 (notebook b s1))) s1'"
    "looped b 51 (fst (exec x2 (notebook b s2))) s2'"
    by (simp_all add: finished_run)
  with a show "wine_scores s1' = wine_scores s2'" "layers (ndvi_map s1') = layers (ndvi_map s2')"
    by (simp_all add: looped_def)
qed

text \<open>
  With the engine that answers every request with its number: a run from the fresh
  kernel finishes, its answers are the numbers 0 to 50, and the table has the answers
  20, 25, ..., 45 as means and 22, 27, ..., 47 as dates; a run from a kernel that already
  holds a table gets the same answers and leaves the same table and the same yearly
  layers; and the engine that refuses what is not as declared, a different engine,
  gives the same answers and so the same run.
\<close>

lemma numbered_run:
  assumes "\<And>h r. passes_declared r \<Longrightarrow> x h r = Inr (PyNum (length h))"
  shows "\<exists>s'. snd (exec x (notebook b s)) = Finished s'"
    and "responses (fst (exec x (notebook b s))) = map (\<lambda>i. Inr (PyNum i)) [0..<51]"
proof -
  let ?t = "fst (exec x (notebook b s))"
  have declared: "passes_declared r" if "(r, a) \<in> set ?t" for r a
    using wp_calls[OF notebook_ok that] by (simp add: call_ok_def)
  have answers: "\<exists>n. a = Inr (PyNum n)" if "(r, a) \<in> set ?t" for r a
    using exec_answers[OF that] declared[OF that] assms by auto
  have numbers: "\<not> not_all_numbers ?t"
    using answers by (fastforce simp: not_all_numbers_def)
  have no_failure: "last ?t \<noteq> (r, Inl e)" if "?t \<noteq> []" for r e
    using answers[of "fst (last ?t)" "snd (last ?t)"] last_in_set[OF that]
    by auto
  show f: "\<exists>s'. snd (exec x (notebook b s)) = Finished s'"
    using wp_sound[OF notebook_ok[of b s], of x] numbers no_failure
    by (cases "snd (exec x (notebook b s))") (auto simp: raise_ok_def)
  then have n: "length ?t = 51"
    using finished_run by (auto simp: looped_def)
  show "responses ?t = map (\<lambda>i. Inr (PyNum i)) [0..<51]"
  proof (rule nth_equalityI)
    show "length (responses ?t) = length (map (\<lambda>i. Inr (PyNum i)) [0..<51])"
      using n by (simp add: responses_def)
  next
    fix i
    assume "i < length (responses ?t)"
    then have i: "i < length ?t"
      by (simp add: responses_def)
    then have "(fst (?t ! i), snd (?t ! i)) \<in> set ?t"
      by simp
    then have "passes_declared (fst (?t ! i))"
      by (rule declared)
    moreover have "snd (?t ! i) = x (take i ?t) (fst (?t ! i))"
      using exec_from_nth[of i x "notebook b s" "[]"] i by (simp add: exec_def)
    ultimately have "snd (?t ! i) = Inr (PyNum i)"
      using assms i by simp
    then show "responses ?t ! i = map (\<lambda>i. Inr (PyNum i)) [0..<51] ! i"
      using i n by (simp add: responses_def)
  qed
qed

theorem run_determined_by_responses_witness:
  "(\<exists>s'. snd (exec numbering_engine (notebook sample_builtins sample_kernel)) = Finished s')
   \<and> (\<exists>s'. snd (exec numbering_engine (notebook sample_builtins (cell_36 sample_kernel))) =
             Finished s')
   \<and> responses (fst (exec numbering_engine (notebook sample_builtins sample_kernel))) =
       map (\<lambda>i. Inr (PyNum i)) [0..<51]
   \<and> responses (fst (exec numbering_engine (notebook sample_builtins (cell_36 sample_kernel)))) =
       map (\<lambda>i. Inr (PyNum i)) [0..<51]
   \<and> responses (fst (exec strict_engine (notebook sample_builtins sample_kernel))) =
       map (\<lambda>i. Inr (PyNum i)) [0..<51]
   \<and> wine_scores (state_of (snd (exec numbering_engine (notebook sample_builtins sample_kernel)))) =
       [\<lparr>Year = 2017, Wine_Score = Some 93, Mean_NDVI = PyNum 20, Photo_Date = PyNum 22\<rparr>,
        \<lparr>Year = 2018, Wine_Score = Some 92, Mean_NDVI = PyNum 25, Photo_Date = PyNum 27\<rparr>,
        \<lparr>Year = 2019, Wine_Score = Some 95, Mean_NDVI = PyNum 30, Photo_Date = PyNum 32\<rparr>,
        \<lparr>Year = 2020, Wine_Score = Some 94, Mean_NDVI = PyNum 35, Photo_Date = PyNum 37\<rparr>,
        \<lparr>Year = 2021, Wine_Score = None, Mean_NDVI = PyNum 40, Photo_Date = PyNum 42\<rparr>,
        \<lparr>Year = 2022, Wine_Score = None, Mean_NDVI = PyNum 45, Photo_Date = PyNum 47\<rparr>]
   \<and> wine_scores (state_of (snd (exec numbering_engine
          (notebook sample_builtins (cell_36 sample_kernel))))) =
     wine_scores (state_of (snd (exec numbering_engine (notebook sample_builtins sample_kernel))))
   \<and> layers (ndvi_map (state_of (snd (exec numbering_engine
          (notebook sample_builtins (cell_36 sample_kernel)))))) =
     layers (ndvi_map (state_of (snd (exec numbering_engine
          (notebook sample_builtins sample_kernel)))))
   \<and> strict_engine [] (Add_ee_layer Split (ImageCollection []) [] []) \<noteq>
     numbering_engine [] (Add_ee_layer Split (ImageCollection []) [] [])
   \<and> exec strict_engine (notebook sample_builtins sample_kernel) =
     exec numbering_engine (notebook sample_builtins sample_kernel)"
proof -
  let ?p1 = "notebook sample_builtins sample_kernel"
  let ?p2 = "notebook sample_builtins (cell_36 sample_kernel)"
  have num: "passes_declared r \<Longrightarrow> numbering_engine h r = Inr (PyNum (length h))" for h r
    by (simp add: numbering_engine_def)
  have str: "passes_declared r \<Longrightarrow> strict_engine h r = Inr (PyNum (length h))" for h r
    by (simp add: strict_engine_def)
  obtain s1 where f1: "snd (exec numbering_engine ?p1) = Finished s1"
    using numbered_run(1)[of numbering_engine, OF num] by blast
  obtain s2 where f2: "snd (exec numbering_engine ?p2) = Finished s2"
    using numbered_run(1)[of numbering_engine, OF num] by blast
  have r1: "responses (fst (exec numbering_engine ?p1)) = map (\<lambda>i. Inr (PyNum i)) [0..<51]"
    using num by (rule numbered_run(2))
  have r2: "responses (fst (exec numbering_engine ?p2)) = map (\<lambda>i. Inr (PyNum i)) [0..<51]"
    using num by (rule numbered_run(2))
  have r3: "responses (fst (exec strict_engine ?p1)) = map (\<lambda>i. Inr (PyNum i)) [0..<51]"
    using str by (rule numbered_run(2))
  have a: "answer (map (\<lambda>i. Inr (PyNum i)) [0..<51]) k = PyNum k" if "k < 51" for k
    using that by (simp add: answer_def)
  have d: "strict_engine [] (Add_ee_layer Split (ImageCollection []) [] []) \<noteq>
     numbering_engine [] (Add_ee_layer Split (ImageCollection []) [] [])"
    by (simp add: strict_engine_def numbering_engine_def)
  from run_determined_by_responses[where x = numbering_engine and b = sample_builtins
      and s = sample_kernel and s' = s1] f1
  have "wine_scores s1 =
       [\<lparr>Year = 2017, Wine_Score = Some 93, Mean_NDVI = PyNum 20, Photo_Date = PyNum 22\<rparr>,
        \<lparr>Year = 2018, Wine_Score = Some 92, Mean_NDVI = PyNum 25, Photo_Date = PyNum 27\<rparr>,
        \<lparr>Year = 2019, Wine_Score = Some 95, Mean_NDVI = PyNum 30, Photo_Date = PyNum 32\<rparr>,
        \<lparr>Year = 2020, Wine_Score = Some 94, Mean_NDVI = PyNum 35, Photo_Date = PyNum 37\<rparr>,
        \<lparr>Year = 2021, Wine_Score = None, Mean_NDVI = PyNum 40, Photo_Date = PyNum 42\<rparr>,
        \<lparr>Year = 2022, Wine_Score = None, Mean_NDVI = PyNum 45, Photo_Date = PyNum 47\<rparr>]"
    unfolding r1 Let_def by (simp add: a)
  moreover from run_determined_by_responses[where ?x1.0 = numbering_engine
      and ?x2.0 = numbering_engine and b = sample_builtins and ?s1.0 = "cell_36 sample_kernel"
      and ?s2.0 = sample_kernel and ?s1' = s2 and ?s2' = s1] f1 f2 r1 r2
  have "wine_scores s2 = wine_scores s1" "layers (ndvi_map s2) = layers (ndvi_map s1)"
    by simp_all
  moreover from run_determined_by_responses[where ?x1.0 = strict_engine
      and ?x2.0 = numbering_engine and b = sample_builtins and s = sample_kernel] r1 r3
  have "exec strict_engine ?p1 = exec numbering_engine ?p1"
    by simp
  ultimately show ?thesis
    using f1 f2 r1 r2 r3 d by simp
qed

end
